theory Spec2Isabelle
  imports Complex_Main "HOL-Library.Word" "HOL-Library.AList"
begin

section \<open>JavaScript strings and \<open>encodeURIComponent\<close>\<close>

text \<open>
  A JavaScript string is a sequence of 16-bit code units.  The literals of the source are
  ASCII; \<open>js\<close> turns a HOL literal into the code units of the same text.
\<close>

type_synonym jsstring = "16 word list"

definition js :: "string \<Rightarrow> jsstring" where
  "js s = map (\<lambda>c. of_char c) s"

text \<open>
  \<open>encodeURIComponent\<close> is the built-in of the language, modelled from ECMA-262
  (\<open>Encode\<close> with an empty set of extra unescaped characters, \<open>CodePointAt\<close>, and the UTF-8
  transformation).  It raises URIError on an unpaired surrogate: \<open>None\<close> below.
\<close>

definition uriUnescaped :: "16 word \<Rightarrow> bool" where
  "uriUnescaped c \<longleftrightarrow>
     c \<in> set (js ''ABCDEFGHIJKLMNOPQRSTUVWXYZabcdefghijklmnopqrstuvwxyz0123456789-_.!~*'()'')"

definition isLeadingSurrogate :: "16 word \<Rightarrow> bool" where
  "isLeadingSurrogate c \<longleftrightarrow> 0xD800 \<le> c \<and> c \<le> 0xDBFF"

definition isTrailingSurrogate :: "16 word \<Rightarrow> bool" where
  "isTrailingSurrogate c \<longleftrightarrow> 0xDC00 \<le> c \<and> c \<le> 0xDFFF"

record CodePointRecord =
  CodePoint :: nat
  CodeUnitCount :: nat
  IsUnpairedSurrogate :: bool

definition UTF16SurrogatePairToCodePoint :: "16 word \<Rightarrow> 16 word \<Rightarrow> nat" where
  "UTF16SurrogatePairToCodePoint lead trail =
     (unat lead - 0xD800) * 0x400 + (unat trail - 0xDC00) + 0x10000"

text \<open>\<open>CodePointAt\<close> at position 0 of a non-empty string \<open>first # rest\<close>.\<close>

definition CodePointAt :: "16 word \<Rightarrow> jsstring \<Rightarrow> CodePointRecord" where
  "CodePointAt first rest =
     (if \<not> isLeadingSurrogate first \<and> \<not> isTrailingSurrogate first then
        \<lparr>CodePoint = unat first, CodeUnitCount = 1, IsUnpairedSurrogate = False\<rparr>
      else if isTrailingSurrogate first \<or> rest = [] then
        \<lparr>CodePoint = unat first, CodeUnitCount = 1, IsUnpairedSurrogate = True\<rparr>
      else if \<not> isTrailingSurrogate (hd rest) then
        \<lparr>CodePoint = unat first, CodeUnitCount = 1, IsUnpairedSurrogate = True\<rparr>
      else
        \<lparr>CodePoint = UTF16SurrogatePairToCodePoint first (hd rest),
         CodeUnitCount = 2, IsUnpairedSurrogate = False\<rparr>)"

definition utf8 :: "nat \<Rightarrow> 8 word list" where
  "utf8 cp =
     (if cp < 0x80 then [of_nat cp]
      else if cp < 0x800 then [of_nat (0xC0 + cp div 0x40), of_nat (0x80 + cp mod 0x40)]
      else if cp < 0x10000 then
        [of_nat (0xE0 + cp div 0x1000), of_nat (0x80 + cp div 0x40 mod 0x40),
         of_nat (0x80 + cp mod 0x40)]
      else
        [of_nat (0xF0 + cp div 0x40000), of_nat (0x80 + cp div 0x1000 mod 0x40),
         of_nat (0x80 + cp div 0x40 mod 0x40), of_nat (0x80 + cp mod 0x40)])"

definition hexDigit :: "nat \<Rightarrow> 16 word" where
  "hexDigit n = js ''0123456789ABCDEF'' ! (n mod 16)"

definition percentEscape :: "8 word \<Rightarrow> jsstring" where
  "percentEscape octet = [0x25, hexDigit (unat octet div 16), hexDigit (unat octet mod 16)]"

function Encode :: "jsstring \<Rightarrow> jsstring option" where
  "Encode [] = Some []"
| "Encode (c # rest) =
     (if uriUnescaped c then map_option ((#) c) (Encode rest)
      else
        (let cp = CodePointAt c rest in
         if IsUnpairedSurrogate cp then None
         else map_option ((@) (concat (map percentEscape (utf8 (CodePoint cp)))))
                (Encode (drop (CodeUnitCount cp - 1) rest))))"
  by pat_completeness auto
termination
  by (relation "measure length") auto

definition encodeURIComponent :: "jsstring \<Rightarrow> jsstring option" where
  "encodeURIComponent s = Encode s"

text \<open>A string is well formed when every surrogate code unit is half of a pair.\<close>

fun isWellFormed :: "jsstring \<Rightarrow> bool" where
  "isWellFormed [] = True"
| "isWellFormed [c] = (\<not> isLeadingSurrogate c \<and> \<not> isTrailingSurrogate c)"
| "isWellFormed (c # d # rest) =
     (if isLeadingSurrogate c then isTrailingSurrogate d \<and> isWellFormed rest
      else \<not> isTrailingSurrogate c \<and> isWellFormed (d # rest))"

section \<open>The result envelope (types.ts)\<close>

text \<open>
  A value produced by \<open>JSON.parse\<close> or by \<open>response.json()\<close>.  An object is the list of
  its own properties.
\<close>

datatype json =
    JNull
  | JBool bool
  | JNum rat
  | JStr jsstring
  | JArr "json list"
  | JObj "(jsstring \<times> json) list"

text \<open>
  \<open>ApiError\<close> declares both fields as strings.  The fetch-based client copies them
  unchecked from the parsed body of the response, so at run time each holds whatever
  JSON value the server sent there.
\<close>

record ApiError =
  error :: json
  detail :: json

text \<open>
  \<open>ApiResult<T>\<close> is a union discriminated by \<open>ok\<close>: \<open>{ok: true, data}\<close> is \<open>Ok\<close>,
  \<open>{ok: false, error, status}\<close> is \<open>NotOk\<close>.
\<close>

datatype 'a ApiResult =
    Ok (data: 'a)
  | NotOk (api_error: ApiError) (status: int)

definition ok :: "'a ApiResult \<Rightarrow> bool" where
  "ok r = (case r of Ok _ \<Rightarrow> True | NotOk _ _ \<Rightarrow> False)"

text \<open>
  What a \<open>catch\<close> clause can receive.  The constructor records the first class, in the
  order in which \<open>callApi\<close> tests them, that the value is an instance of:
  \<^item> \<open>HttpError message body statusCode\<close>; \<open>body\<close> is \<open>None\<close> when it is \<open>null\<close> or
    \<open>undefined\<close>, and otherwise carries the text \<open>String(error.body)\<close>;
  \<^item> \<open>TimeoutError message\<close>, \<open>NetworkError message\<close>;
  \<^item> \<open>AumosError code message statusCode\<close>, the status code being optional;
  \<^item> \<open>OtherError name message\<close>: any other instance of \<open>Error\<close>;
  \<^item> \<open>NonError text\<close>: a thrown value that is no \<open>Error\<close>, with the text \<open>String(value)\<close>.
\<close>

datatype thrown =
    HttpError jsstring "jsstring option" int
  | TimeoutError jsstring
  | NetworkError jsstring
  | AumosError jsstring jsstring "int option"
  | OtherError jsstring jsstring
  | NonError jsstring

text \<open>\<open>error instanceof Error\<close> and \<open>error.message\<close>; the sdk-core classes are errors.\<close>

definition instanceofError :: "thrown \<Rightarrow> bool" where
  "instanceofError e = (case e of NonError _ \<Rightarrow> False | _ \<Rightarrow> True)"

definition message :: "thrown \<Rightarrow> jsstring" where
  "message e =
     (case e of
        HttpError m _ _ \<Rightarrow> m
      | TimeoutError m \<Rightarrow> m
      | NetworkError m \<Rightarrow> m
      | AumosError _ m _ \<Rightarrow> m
      | OtherError _ m \<Rightarrow> m
      | NonError _ \<Rightarrow> [])"

definition String_thrown :: "thrown \<Rightarrow> jsstring" where
  "String_thrown e = (case e of NonError s \<Rightarrow> s | _ \<Rightarrow> message e)"

text \<open>
  The fate of a promise: fulfilled, rejected, or \<open>Pending\<close> for ever (it never settles).
  A synchronous \<open>throw\<close> inside an async function is a rejection.
\<close>

datatype 'a promise =
    Fulfilled 'a
  | Rejected thrown
  | Pending

text \<open>The URIError of \<open>encodeURIComponent\<close>, with the message V8 gives it.\<close>

definition URIError :: thrown where
  "URIError = OtherError (js ''URIError'') (js ''URI malformed'')"

section \<open>Client configuration\<close>

text \<open>A \<open>Record<string, string>\<close>: its properties in the order of insertion.\<close>

type_synonym string_record = "(jsstring \<times> jsstring) list"

type_synonym headers = string_record

record AgentVerticalClientConfig =
  baseUrl :: jsstring
  timeoutMs :: "int option"
  headers :: "headers option"

record GetTemplatesOptions =
  domain :: "jsstring option"
  limit :: "int option"

record GetToolCollectionOptions =
  tools_domain :: "jsstring option"
  tools_template_name :: "jsstring option"

text \<open>\<open>parameter_overrides\<close> maps names to values of type \<open>unknown\<close>: the type \<open>'u\<close>.\<close>

record 'u TemplateConfig =
  template_name :: jsstring
  parameter_overrides :: "(jsstring \<times> 'u) list option"
  validate_before_apply :: "bool option"

text \<open>A call of one method of the client object.\<close>

datatype 'u invocation =
    GetTemplates "GetTemplatesOptions option"
  | ApplyTemplate "'u TemplateConfig"
  | ValidateTemplate jsstring
  | GetToolCollection GetToolCollectionOptions
  | GetDomainConfig jsstring
  | GetPromptPattern jsstring
  | ListDomains
  | GetTemplate jsstring

text \<open>
  \<open>String(n)\<close> for a number that is an integer (of magnitude below \<open>10^21\<close>, where
  JavaScript switches to exponent notation): its decimal digits.
\<close>

fun decimal :: "nat \<Rightarrow> jsstring" where
  "decimal n = (if n < 10 then [of_nat (48 + n)] else decimal (n div 10) @ [of_nat (48 + n mod 10)])"

definition String_number :: "int \<Rightarrow> jsstring" where
  "String_number i = (if i < 0 then 0x2D # decimal (nat (- i)) else decimal (nat i))"

declare decimal.simps [simp del]

section \<open>The client over @aumos/sdk-core\<close>

text \<open>
  The library \<open>@aumos/sdk-core\<close> is not part of the repository; the client is modelled
  over any implementation of it.  A call of \<open>http.get(path, {queryParams})\<close>,
  \<open>http.get(path)\<close> or \<open>http.post(path, body)\<close> is a value of \<open>http_call\<close>.  The library
  answers a call with the promise of \<open>{data, status}\<close>; what it does to obtain the answer
  is its own business.
\<close>

datatype 'u http_call =
    HttpGet jsstring "string_record option"
  | HttpPost jsstring "'u TemplateConfig"

type_synonym ('a, 'u) HttpClient = "'u http_call \<Rightarrow> ('a \<times> int) promise"

text \<open>\<open>createHttpClient({baseUrl, timeout, defaultHeaders})\<close>, the fields in this order.\<close>

type_synonym ('a, 'u) createHttpClient =
  "jsstring \<Rightarrow> int \<Rightarrow> headers option \<Rightarrow> ('a, 'u) HttpClient"

text \<open>
  \<open>callApi\<close> receives the thunk \<open>operation\<close> and awaits its call inside \<open>try\<close>; the model
  receives the outcome of that: the response, or what was thrown while the thunk ran or
  by the promise it returned, or nothing when that promise never settles.  The result
  is the promise that \<open>callApi\<close> returns.
\<close>

definition callApi_catch :: "thrown \<Rightarrow> 'a ApiResult" where
  "callApi_catch err =
          (case err of
             HttpError msg errorBody statusCode \<Rightarrow>
               NotOk \<lparr>error = JStr msg,
                      detail = JStr (case errorBody of None \<Rightarrow> [] | Some s \<Rightarrow> s)\<rparr>
                 statusCode
           | TimeoutError msg \<Rightarrow>
               NotOk \<lparr>error = JStr (js ''Request timed out''), detail = JStr msg\<rparr> 0
           | NetworkError msg \<Rightarrow>
               NotOk \<lparr>error = JStr (js ''Network error''), detail = JStr msg\<rparr> 0
           | AumosError code msg statusCode \<Rightarrow>
               NotOk \<lparr>error = JStr code, detail = JStr msg\<rparr>
                 (case statusCode of None \<Rightarrow> 0 | Some c \<Rightarrow> c)
           | _ \<Rightarrow>
               NotOk \<lparr>error = JStr (js ''Unexpected error''),
                      detail = JStr (if instanceofError err then message err
                                     else String_thrown err)\<rparr> 0)"

definition callApi :: "('a \<times> int) promise \<Rightarrow> 'a ApiResult promise" where
  "callApi operation =
     (case operation of
        Fulfilled response \<Rightarrow> Fulfilled (Ok (fst response))
      | Rejected err \<Rightarrow> Fulfilled (callApi_catch err)
      | Pending \<Rightarrow> Pending)"

text \<open>
  What one method call did: the promise it returned and the calls it made to the
  library.
\<close>

record ('a, 'u) sdk_run =
  returned :: "'a ApiResult promise"
  library_calls :: "'u http_call list"

text \<open>
  \<open>callApi(() => http.get(path, ...))\<close> where the path is built inside the thunk:
  \<open>path\<close> is \<open>Inl\<close> of what building it threw, or \<open>Inr\<close> of the call to make.
\<close>

definition callApi_thunk ::
  "('a, 'u) HttpClient \<Rightarrow> thrown + 'u http_call \<Rightarrow> ('a, 'u) sdk_run" where
  "callApi_thunk http thunk =
     (case thunk of
        Inl err \<Rightarrow> \<lparr>returned = callApi (Rejected err), library_calls = []\<rparr>
      | Inr call \<Rightarrow> \<lparr>returned = callApi (http call), library_calls = [call]\<rparr>)"

text \<open>A template literal \<open>`prefix${encodeURIComponent(value)}suffix`\<close>.\<close>

definition encoded_path :: "jsstring \<Rightarrow> jsstring \<Rightarrow> jsstring \<Rightarrow> thrown + jsstring" where
  "encoded_path prefix v suffix =
     (case encodeURIComponent v of
        None \<Rightarrow> Inl URIError
      | Some e \<Rightarrow> Inr (prefix @ e @ suffix))"

definition getTemplates_sdk ::
  "('a, 'u) HttpClient \<Rightarrow> GetTemplatesOptions option \<Rightarrow> ('a, 'u) sdk_run" where
  "getTemplates_sdk http options =
     (let queryParams = [];
          queryParams = (case Option.bind options domain of
                           None \<Rightarrow> queryParams
                         | Some d \<Rightarrow> AList.update (js ''domain'') d queryParams);
          queryParams = (case Option.bind options limit of
                           None \<Rightarrow> queryParams
                         | Some l \<Rightarrow> AList.update (js ''limit'') (String_number l) queryParams)
      in callApi_thunk http (Inr (HttpGet (js ''/vertical/templates'') (Some queryParams))))"

definition applyTemplate_sdk ::
  "('a, 'u) HttpClient \<Rightarrow> 'u TemplateConfig \<Rightarrow> ('a, 'u) sdk_run" where
  "applyTemplate_sdk http templateConfig =
     callApi_thunk http (Inr (HttpPost (js ''/vertical/templates/apply'') templateConfig))"

definition validateTemplate_sdk :: "('a, 'u) HttpClient \<Rightarrow> jsstring \<Rightarrow> ('a, 'u) sdk_run" where
  "validateTemplate_sdk http templateName =
     callApi_thunk http
       (map_sum id (\<lambda>path. HttpGet path None)
          (encoded_path (js ''/vertical/templates/'') templateName (js ''/validate'')))"

definition getToolCollection_sdk ::
  "('a, 'u) HttpClient \<Rightarrow> GetToolCollectionOptions \<Rightarrow> ('a, 'u) sdk_run" where
  "getToolCollection_sdk http options =
     (let queryParams = [];
          queryParams = (case tools_domain options of
                           None \<Rightarrow> queryParams
                         | Some d \<Rightarrow> AList.update (js ''domain'') d queryParams);
          queryParams = (case tools_template_name options of
                           None \<Rightarrow> queryParams
                         | Some n \<Rightarrow> AList.update (js ''template_name'') n queryParams)
      in callApi_thunk http (Inr (HttpGet (js ''/vertical/tools'') (Some queryParams))))"

definition getDomainConfig_sdk :: "('a, 'u) HttpClient \<Rightarrow> jsstring \<Rightarrow> ('a, 'u) sdk_run" where
  "getDomainConfig_sdk http domainName =
     callApi_thunk http
       (map_sum id (\<lambda>path. HttpGet path None)
          (encoded_path (js ''/vertical/domains/'') domainName (js ''/config'')))"

definition getPromptPattern_sdk :: "('a, 'u) HttpClient \<Rightarrow> jsstring \<Rightarrow> ('a, 'u) sdk_run" where
  "getPromptPattern_sdk http domainName =
     callApi_thunk http
       (map_sum id (\<lambda>path. HttpGet path None)
          (encoded_path (js ''/vertical/domains/'') domainName (js ''/rules'')))"

definition listDomains_sdk :: "('a, 'u) HttpClient \<Rightarrow> ('a, 'u) sdk_run" where
  "listDomains_sdk http = callApi_thunk http (Inr (HttpGet (js ''/vertical/domains'') None))"

definition getTemplate_sdk :: "('a, 'u) HttpClient \<Rightarrow> jsstring \<Rightarrow> ('a, 'u) sdk_run" where
  "getTemplate_sdk http templateName =
     callApi_thunk http
       (map_sum id (\<lambda>path. HttpGet path None)
          (encoded_path (js ''/vertical/templates/'') templateName []))"

text \<open>The object of methods that the factory returns, applied to a method call.\<close>

definition methods_sdk :: "('a, 'u) HttpClient \<Rightarrow> 'u invocation \<Rightarrow> ('a, 'u) sdk_run" where
  "methods_sdk http call =
     (case call of
        GetTemplates options \<Rightarrow> getTemplates_sdk http options
      | ApplyTemplate templateConfig \<Rightarrow> applyTemplate_sdk http templateConfig
      | ValidateTemplate templateName \<Rightarrow> validateTemplate_sdk http templateName
      | GetToolCollection options \<Rightarrow> getToolCollection_sdk http options
      | GetDomainConfig domainName \<Rightarrow> getDomainConfig_sdk http domainName
      | GetPromptPattern domainName \<Rightarrow> getPromptPattern_sdk http domainName
      | ListDomains \<Rightarrow> listDomains_sdk http
      | GetTemplate templateName \<Rightarrow> getTemplate_sdk http templateName)"

text \<open>
  \<open>createAgentVerticalClient(config)\<close> builds the library's client once, with
  \<open>config.timeoutMs ?? 30_000\<close> as its timeout, and every method closes over it.
\<close>

definition createAgentVerticalClient_sdk ::
  "('a, 'u) createHttpClient \<Rightarrow> AgentVerticalClientConfig \<Rightarrow> 'u invocation
     \<Rightarrow> ('a, 'u) sdk_run" where
  "createAgentVerticalClient_sdk createHttpClient config =
     (let http = createHttpClient (baseUrl config)
                   (case timeoutMs config of None \<Rightarrow> 30000 | Some t \<Rightarrow> t)
                   (headers config)
      in methods_sdk http)"

text \<open>The paths of the library calls of a run.\<close>

definition sdk_paths :: "('a, 'u) sdk_run \<Rightarrow> jsstring list" where
  "sdk_paths run =
     map (\<lambda>c. case c of HttpGet path _ \<Rightarrow> path | HttpPost path _ \<Rightarrow> path) (library_calls run)"

text \<open>The failures of transport among what the library throws: a timeout, a network error.\<close>

definition transport_failure_sdk :: "('a \<times> int) promise \<Rightarrow> bool" where
  "transport_failure_sdk p =
     (case p of
        Rejected (TimeoutError _) \<Rightarrow> True
      | Rejected (NetworkError _) \<Rightarrow> True
      | _ \<Rightarrow> False)"

section \<open>The client over the Fetch API\<close>

subsection \<open>\<open>URLSearchParams\<close>\<close>

text \<open>
  \<open>params.toString()\<close> is the application/x-www-form-urlencoded serializer of the URL
  standard: names and values are converted to scalar values (an unpaired surrogate
  becomes U+FFFD), encoded in UTF-8, and every byte outside the set of the standard is
  percent-encoded, a space becoming \<open>+\<close>.
\<close>

function scalarValues :: "jsstring \<Rightarrow> nat list" where
  "scalarValues [] = []"
| "scalarValues (c # rest) =
     (let cp = CodePointAt c rest in
      (if IsUnpairedSurrogate cp then 0xFFFD else CodePoint cp)
        # scalarValues (drop (CodeUnitCount cp - 1) rest))"
  by pat_completeness auto
termination
  by (relation "measure length") auto

definition urlencodedByte :: "8 word \<Rightarrow> jsstring" where
  "urlencodedByte b =
     (if b = 0x20 then [0x2B]
      else if ucast b \<in> set (js
          ''ABCDEFGHIJKLMNOPQRSTUVWXYZabcdefghijklmnopqrstuvwxyz0123456789*-._'')
        then [ucast b]
      else percentEscape b)"

definition urlencoded :: "jsstring \<Rightarrow> jsstring" where
  "urlencoded s = concat (map urlencodedByte (concat (map utf8 (scalarValues s))))"

fun joinAmpersand :: "jsstring list \<Rightarrow> jsstring" where
  "joinAmpersand [] = []"
| "joinAmpersand [p] = p"
| "joinAmpersand (p # ps) = p @ [0x26] @ joinAmpersand ps"

definition URLSearchParams_toString :: "string_record \<Rightarrow> jsstring" where
  "URLSearchParams_toString params =
     joinAmpersand (map (\<lambda>(name, v). urlencoded name @ [0x3D] @ urlencoded v) params)"

subsection \<open>The path of the URL that \<open>fetch\<close> requests\<close>

text \<open>
  \<open>fetch\<close> parses the string it is given with the parser of the URL standard, and the
  request goes to the parsed URL.  Of the parser, this is the path state for an http or
  https URL, run on the part of the string that starts at the first \<open>/\<close> of the path: tabs
  and newlines are removed; a segment ends at \<open>/\<close> or \<open>\\\<close>, the path at \<open>?\<close> or \<open>#\<close>;
  the characters of the path percent-encode set are percent-encoded; a single-dot
  segment (\<open>.\<close> or \<open>%2e\<close>, in either case of the letter) is dropped, and a double-dot
  segment drops the segment before it as well.
\<close>

definition single_dot_segment :: "jsstring \<Rightarrow> bool" where
  "single_dot_segment b \<longleftrightarrow> b \<in> set (map js [''.'', ''%2e'', ''%2E''])"

definition double_dot_segment :: "jsstring \<Rightarrow> bool" where
  "double_dot_segment b \<longleftrightarrow>
     b \<in> set (map js [''..'', ''.%2e'', ''.%2E'', ''%2e.'', ''%2E.'',
                       ''%2e%2e'', ''%2e%2E'', ''%2E%2e'', ''%2E%2E''])"

definition path_percent_encode :: "nat \<Rightarrow> jsstring" where
  "path_percent_encode c =
     (if c \<le> 0x1F \<or> 0x7E < c
         \<or> c \<in> set [0x20, 0x22, 0x23, 0x3C, 0x3E, 0x3F, 0x5E, 0x60, 0x7B, 0x7D]
      then concat (map percentEscape (utf8 c))
      else [of_nat c])"

text \<open>
  The end of a segment, at a slash (\<open>at_slash\<close>) or at the end of the path.  Shortening
  the path removes its last segment, if there is one.
\<close>

definition end_segment :: "jsstring \<Rightarrow> bool \<Rightarrow> jsstring list \<Rightarrow> jsstring list" where
  "end_segment buffer at_slash path =
     (if double_dot_segment buffer then
        (if at_slash then butlast path else butlast path @ [[]])
      else if single_dot_segment buffer then
        (if at_slash then path else path @ [[]])
      else path @ [buffer])"

fun path_state :: "nat list \<Rightarrow> jsstring \<Rightarrow> jsstring list \<Rightarrow> jsstring list" where
  "path_state [] buffer path = end_segment buffer False path"
| "path_state (c # cs) buffer path =
     (if c = 0x2F \<or> c = 0x5C then path_state cs [] (end_segment buffer True path)
      else if c = 0x3F \<or> c = 0x23 then end_segment buffer False path
      else path_state cs (buffer @ path_percent_encode c) path)"

text \<open>The path of the parsed URL, as the list of its segments.\<close>

definition url_path :: "jsstring \<Rightarrow> jsstring list" where
  "url_path s =
     (case filter (\<lambda>c. c \<noteq> 0x9 \<and> c \<noteq> 0xA \<and> c \<noteq> 0xD) (scalarValues s) of
        [] \<Rightarrow> path_state [] [] []
      | c # cs \<Rightarrow>
          if c = 0x2F \<or> c = 0x5C then path_state cs [] [] else path_state (c # cs) [] [])"

subsection \<open>\<open>fetchJson\<close>\<close>

record RequestInit =
  init_method :: jsstring
  init_headers :: headers
  body :: "jsstring option"

text \<open>
  The part of a \<open>Response\<close> that \<open>fetchJson\<close> reads: \<open>response.ok\<close>, \<open>response.status\<close>
  and the promise of \<open>response.json()\<close>, which is fulfilled with the parsed body, rejected
  when the body cannot be read as JSON, or pending for ever when the body never arrives
  in full.
\<close>

record Response =
  response_ok :: bool
  response_status :: int
  response_json :: "json promise"

text \<open>
  \<open>fetchJson\<close> starts a timer of \<open>timeoutMs\<close> milliseconds that aborts the request, and
  clears it as soon as \<open>fetch\<close> settles, that is when the head of the response has
  arrived.  Which comes first is decided outside the program: the response, a failure of
  \<open>fetch\<close>, or the timer.  After that no timer runs: \<open>response.json()\<close> is awaited
  without a limit.
\<close>

datatype fetch_event =
    Responded Response
  | Failed thrown
  | TimerFired

text \<open>
  The world the client runs in: \<open>fetch url init timeoutMs\<close> is the first event of the
  request, and \<open>JSON_stringify\<close> is \<open>JSON.stringify\<close> on a \<open>TemplateConfig\<close>, which throws
  on a value it cannot serialize.
\<close>

record 'u runtime =
  fetch :: "jsstring \<Rightarrow> RequestInit \<Rightarrow> int \<Rightarrow> fetch_event"
  JSON_stringify :: "'u TemplateConfig \<Rightarrow> thrown + jsstring"

text \<open>What an aborted \<open>fetch\<close> rejects with (the message is the one of Node.js).\<close>

definition AbortError :: thrown where
  "AbortError = OtherError (js ''AbortError'') (js ''This operation was aborted'')"

text \<open>
  Reading the property \<open>error\<close> or \<open>detail\<close> of the parsed body: a TypeError on \<open>null\<close>,
  the own property of an object, and \<open>undefined\<close> (\<open>None\<close>) on every other value.
\<close>

definition property :: "json \<Rightarrow> jsstring \<Rightarrow> thrown + json option" where
  "property v name =
     (case v of
        JNull \<Rightarrow>
          Inl (OtherError (js ''TypeError'')
                 (js ''Cannot read properties of null (reading '' @ [0x27] @ name @ [0x27]
                  @ js '')''))
      | JObj props \<Rightarrow> Inr (map_of props name)
      | _ \<Rightarrow> Inr None)"

text \<open>\<open>x ?? d\<close>\<close>

definition nullish :: "json option \<Rightarrow> json \<Rightarrow> json" where
  "nullish x d = (case x of None \<Rightarrow> d | Some JNull \<Rightarrow> d | Some v \<Rightarrow> v)"

text \<open>The \<open>catch\<close> clause of \<open>fetchJson\<close>.\<close>

definition fetchJson_catch :: "thrown \<Rightarrow> json ApiResult" where
  "fetchJson_catch err =
     NotOk \<lparr>error = JStr (js ''Network error''),
            detail = JStr (if instanceofError err then message err else String_thrown err)\<rparr> 0"

record FetchCall =
  call_url :: jsstring
  call_init :: RequestInit
  call_timeoutMs :: int

text \<open>
  The promise that \<open>fetchJson\<close> returns, with the calls of \<open>fetch\<close> it made.  The promise
  stays pending when an awaited promise does.
\<close>

definition fetchJson ::
  "'u runtime \<Rightarrow> jsstring \<Rightarrow> RequestInit \<Rightarrow> int
     \<Rightarrow> json ApiResult promise \<times> FetchCall list" where
  "fetchJson rt url init timeout_ms =
     (let fetched = (case fetch rt url init timeout_ms of
                       Responded response \<Rightarrow> Fulfilled response
                     | Failed err \<Rightarrow> Rejected err
                     | TimerFired \<Rightarrow> Rejected AbortError);
          result =
            (case fetched of
               Rejected err \<Rightarrow> Fulfilled (fetchJson_catch err)
             | Pending \<Rightarrow> Pending
             | Fulfilled response \<Rightarrow>
                 (case response_json response of
                    Rejected err \<Rightarrow> Fulfilled (fetchJson_catch err)
                  | Pending \<Rightarrow> Pending
                  | Fulfilled parsed \<Rightarrow>
                      Fulfilled
                       (if \<not> response_ok response then
                          (case property parsed (js ''error'') of
                             Inl err \<Rightarrow> fetchJson_catch err
                           | Inr e \<Rightarrow>
                               (case property parsed (js ''detail'') of
                                  Inl err \<Rightarrow> fetchJson_catch err
                                | Inr d \<Rightarrow>
                                    NotOk \<lparr>error = nullish e (JStr (js ''Unknown error'')),
                                           detail = nullish d (JStr [])\<rparr>
                                      (response_status response)))
                        else Ok parsed)))
      in (result, [\<lparr>call_url = url, call_init = init, call_timeoutMs = timeout_ms\<rparr>]))"

text \<open>Object spread: a later key replaces the value of an earlier one in place.\<close>

definition buildHeaders :: "headers option \<Rightarrow> headers" where
  "buildHeaders extraHeaders =
     fold (\<lambda>(k, v). AList.update k v) (case extraHeaders of None \<Rightarrow> [] | Some hs \<Rightarrow> hs)
       [(js ''Content-Type'', js ''application/json''), (js ''Accept'', js ''application/json'')]"

subsection \<open>The methods\<close>

text \<open>
  What one method call did: the promise it returned and the calls of \<open>fetch\<close> it made.
\<close>

record fetch_run =
  settled :: "json ApiResult promise"
  fetch_calls :: "FetchCall list"

text \<open>
  Every method is an async function whose body is \<open>return fetchJson(url, init, timeoutMs)\<close>.
  The arguments are evaluated first, outside the \<open>try\<close> of \<open>fetchJson\<close>: when building the
  URL or the request body throws, the promise of the method is rejected and \<open>fetchJson\<close> is
  not called.
\<close>

definition return_fetchJson ::
  "'u runtime \<Rightarrow> thrown + jsstring \<Rightarrow> thrown + RequestInit \<Rightarrow> int \<Rightarrow> fetch_run" where
  "return_fetchJson rt url init timeout_ms =
     (case url of
        Inl err \<Rightarrow> \<lparr>settled = Rejected err, fetch_calls = []\<rparr>
      | Inr u \<Rightarrow>
          (case init of
             Inl err \<Rightarrow> \<lparr>settled = Rejected err, fetch_calls = []\<rparr>
           | Inr i \<Rightarrow>
               \<lparr>settled = fst (fetchJson rt u i timeout_ms),
                fetch_calls = snd (fetchJson rt u i timeout_ms)\<rparr>))"

definition GET_init :: "headers \<Rightarrow> RequestInit" where
  "GET_init baseHeaders = \<lparr>init_method = js ''GET'', init_headers = baseHeaders, body = None\<rparr>"

definition getTemplates_fetch ::
  "'u runtime \<Rightarrow> jsstring \<Rightarrow> int \<Rightarrow> headers \<Rightarrow> GetTemplatesOptions option \<Rightarrow> fetch_run" where
  "getTemplates_fetch rt base timeout_ms baseHeaders options =
     (let params = [];
          params = (case Option.bind options domain of
                      None \<Rightarrow> params
                    | Some d \<Rightarrow> AList.update (js ''domain'') d params);
          params = (case Option.bind options limit of
                      None \<Rightarrow> params
                    | Some l \<Rightarrow> AList.update (js ''limit'') (String_number l) params);
          query = URLSearchParams_toString params
      in return_fetchJson rt
           (Inr (base @ js ''/vertical/templates''
                 @ (if query \<noteq> [] then 0x3F # query else [])))
           (Inr (GET_init baseHeaders)) timeout_ms)"

definition applyTemplate_fetch ::
  "'u runtime \<Rightarrow> jsstring \<Rightarrow> int \<Rightarrow> headers \<Rightarrow> 'u TemplateConfig \<Rightarrow> fetch_run" where
  "applyTemplate_fetch rt base timeout_ms baseHeaders templateConfig =
     return_fetchJson rt
       (Inr (base @ js ''/vertical/templates/apply''))
       (map_sum id
          (\<lambda>text. \<lparr>init_method = js ''POST'', init_headers = baseHeaders, body = Some text\<rparr>)
          (JSON_stringify rt templateConfig))
       timeout_ms"

definition validateTemplate_fetch ::
  "'u runtime \<Rightarrow> jsstring \<Rightarrow> int \<Rightarrow> headers \<Rightarrow> jsstring \<Rightarrow> fetch_run" where
  "validateTemplate_fetch rt base timeout_ms baseHeaders templateName =
     return_fetchJson rt
       (encoded_path (base @ js ''/vertical/templates/'') templateName (js ''/validate''))
       (Inr (GET_init baseHeaders)) timeout_ms"

definition getToolCollection_fetch ::
  "'u runtime \<Rightarrow> jsstring \<Rightarrow> int \<Rightarrow> headers \<Rightarrow> GetToolCollectionOptions \<Rightarrow> fetch_run" where
  "getToolCollection_fetch rt base timeout_ms baseHeaders options =
     (let params = [];
          params = (case tools_domain options of
                      None \<Rightarrow> params
                    | Some d \<Rightarrow> AList.update (js ''domain'') d params);
          params = (case tools_template_name options of
                      None \<Rightarrow> params
                    | Some n \<Rightarrow> AList.update (js ''template_name'') n params)
      in return_fetchJson rt
           (Inr (base @ js ''/vertical/tools?'' @ URLSearchParams_toString params))
           (Inr (GET_init baseHeaders)) timeout_ms)"

definition getDomainConfig_fetch ::
  "'u runtime \<Rightarrow> jsstring \<Rightarrow> int \<Rightarrow> headers \<Rightarrow> jsstring \<Rightarrow> fetch_run" where
  "getDomainConfig_fetch rt base timeout_ms baseHeaders domainName =
     return_fetchJson rt
       (encoded_path (base @ js ''/vertical/domains/'') domainName (js ''/config''))
       (Inr (GET_init baseHeaders)) timeout_ms"

definition getPromptPattern_fetch ::
  "'u runtime \<Rightarrow> jsstring \<Rightarrow> int \<Rightarrow> headers \<Rightarrow> jsstring \<Rightarrow> fetch_run" where
  "getPromptPattern_fetch rt base timeout_ms baseHeaders domainName =
     return_fetchJson rt
       (encoded_path (base @ js ''/vertical/domains/'') domainName (js ''/rules''))
       (Inr (GET_init baseHeaders)) timeout_ms"

definition listDomains_fetch :: "'u runtime \<Rightarrow> jsstring \<Rightarrow> int \<Rightarrow> headers \<Rightarrow> fetch_run" where
  "listDomains_fetch rt base timeout_ms baseHeaders =
     return_fetchJson rt (Inr (base @ js ''/vertical/domains''))
       (Inr (GET_init baseHeaders)) timeout_ms"

definition getTemplate_fetch ::
  "'u runtime \<Rightarrow> jsstring \<Rightarrow> int \<Rightarrow> headers \<Rightarrow> jsstring \<Rightarrow> fetch_run" where
  "getTemplate_fetch rt base timeout_ms baseHeaders templateName =
     return_fetchJson rt
       (encoded_path (base @ js ''/vertical/templates/'') templateName [])
       (Inr (GET_init baseHeaders)) timeout_ms"

text \<open>The object of methods that the factory returns, applied to a method call.\<close>

definition methods_fetch ::
  "'u runtime \<Rightarrow> jsstring \<Rightarrow> int \<Rightarrow> headers \<Rightarrow> 'u invocation \<Rightarrow> fetch_run" where
  "methods_fetch rt base timeout_ms baseHeaders call =
     (case call of
        GetTemplates options \<Rightarrow> getTemplates_fetch rt base timeout_ms baseHeaders options
      | ApplyTemplate templateConfig \<Rightarrow>
          applyTemplate_fetch rt base timeout_ms baseHeaders templateConfig
      | ValidateTemplate templateName \<Rightarrow>
          validateTemplate_fetch rt base timeout_ms baseHeaders templateName
      | GetToolCollection options \<Rightarrow>
          getToolCollection_fetch rt base timeout_ms baseHeaders options
      | GetDomainConfig domainName \<Rightarrow>
          getDomainConfig_fetch rt base timeout_ms baseHeaders domainName
      | GetPromptPattern domainName \<Rightarrow>
          getPromptPattern_fetch rt base timeout_ms baseHeaders domainName
      | ListDomains \<Rightarrow> listDomains_fetch rt base timeout_ms baseHeaders
      | GetTemplate templateName \<Rightarrow>
          getTemplate_fetch rt base timeout_ms baseHeaders templateName)"

text \<open>
  \<open>createAgentVerticalClient(config)\<close> destructures the configuration, \<open>timeoutMs\<close>
  defaulting to 30000, and builds the headers once.
\<close>

definition createAgentVerticalClient_fetch ::
  "'u runtime \<Rightarrow> AgentVerticalClientConfig \<Rightarrow> 'u invocation \<Rightarrow> fetch_run" where
  "createAgentVerticalClient_fetch rt config =
     (let base = baseUrl config;
          timeout_ms = (case timeoutMs config of None \<Rightarrow> 30000 | Some t \<Rightarrow> t);
          baseHeaders = buildHeaders (headers config)
      in methods_fetch rt base timeout_ms baseHeaders)"

text \<open>The first event of a call of \<open>fetch\<close>, and the failures of transport among events.\<close>

definition event_of :: "'u runtime \<Rightarrow> FetchCall \<Rightarrow> fetch_event" where
  "event_of rt c = fetch rt (call_url c) (call_init c) (call_timeoutMs c)"

definition transport_failure_fetch :: "fetch_event \<Rightarrow> bool" where
  "transport_failure_fetch ev =
     (case ev of Responded _ \<Rightarrow> False | Failed _ \<Rightarrow> True | TimerFired \<Rightarrow> True)"

text \<open>The URLs of the calls of \<open>fetch\<close> of a run.\<close>

definition fetch_urls :: "fetch_run \<Rightarrow> jsstring list" where
  "fetch_urls run = map call_url (fetch_calls run)"

text \<open>The calls of the four methods that take a template name or a domain.\<close>

definition named_calls :: "jsstring \<Rightarrow> 'u invocation set" where
  "named_calls v = {GetTemplate v, ValidateTemplate v, GetDomainConfig v, GetPromptPattern v}"

section \<open>Sample worlds\<close>

text \<open>
  Concrete servers and libraries, at which the theorems below are instantiated: a
  server that answers 500 with a body that is not JSON, one that answers 200 with the
  body \<open>null\<close>, one that never answers in time, one that answers 404 with a JSON body,
  one that answers a validation request, one that sends the head of a response and
  never the whole body; and implementations of the library that time out, report 404,
  or answer a validation request.
\<close>

definition SyntaxError :: thrown where
  "SyntaxError = OtherError (js ''SyntaxError'') (js ''Unexpected token < in JSON at position 0'')"

definition runtime_500_html :: "unit runtime" where
  "runtime_500_html =
     \<lparr>fetch = (\<lambda>url init timeout_ms.
         Responded \<lparr>response_ok = False, response_status = 500,
                    response_json = Rejected SyntaxError\<rparr>),
      JSON_stringify = (\<lambda>templateConfig. Inr (js ''{}''))\<rparr>"

definition runtime_200_null :: "unit runtime" where
  "runtime_200_null =
     \<lparr>fetch = (\<lambda>url init timeout_ms.
         Responded \<lparr>response_ok = True, response_status = 200,
                    response_json = Fulfilled JNull\<rparr>),
      JSON_stringify = (\<lambda>templateConfig. Inr (js ''{}''))\<rparr>"

definition localhost :: AgentVerticalClientConfig where
  "localhost = \<lparr>baseUrl = js ''http://localhost:8093'', timeoutMs = None, headers = None\<rparr>"

definition runtime_unreachable :: "unit runtime" where
  "runtime_unreachable =
     \<lparr>fetch = (\<lambda>url init timeout_ms. TimerFired),
      JSON_stringify = (\<lambda>templateConfig. Inr (js ''{}''))\<rparr>"

definition runtime_404_json :: "unit runtime" where
  "runtime_404_json =
     \<lparr>fetch = (\<lambda>url init timeout_ms.
         Responded \<lparr>response_ok = False, response_status = 404,
                    response_json = Fulfilled (JObj [(js ''error'', JStr (js ''Not found''))])\<rparr>),
      JSON_stringify = (\<lambda>templateConfig. Inr (js ''{}''))\<rparr>"

definition validation_result :: json where
  "validation_result =
     JObj [(js ''valid'', JBool True), (js ''warnings'', JArr []),
           (js ''template_name'', JStr (js ''triage''))]"

definition runtime_validation_ok :: "unit runtime" where
  "runtime_validation_ok =
     \<lparr>fetch = (\<lambda>url init timeout_ms.
         Responded \<lparr>response_ok = True, response_status = 200,
                    response_json = Fulfilled validation_result\<rparr>),
      JSON_stringify = (\<lambda>templateConfig. Inr (js ''{}''))\<rparr>"

definition domains_call :: FetchCall where
  "domains_call =
     \<lparr>call_url = js ''http://localhost:8093/vertical/domains'',
      call_init = GET_init (buildHeaders None), call_timeoutMs = 30000\<rparr>"



definition not_found_createHttpClient :: "(json, unit) createHttpClient" where
  "not_found_createHttpClient base timeout_ms defaultHeaders call =
     Rejected (HttpError (js ''Not Found'') None 404)"

definition validation_ok_createHttpClient :: "(json, unit) createHttpClient" where
  "validation_ok_createHttpClient base timeout_ms defaultHeaders call =
     Fulfilled (validation_result, 200)"

section \<open>The evaluation engine\<close>

text \<open>
  The engine (RuleMatcher, ComplianceChecker, GroundingValidator, CertificationEvaluator)
  is the Python package behind the HTTP interface; of it the sources hold only the
  TypeScript declarations of its data.  Its functions are modelled below from the
  specification.  Python text is a \<open>string\<close> here.
\<close>

subsection \<open>Compliance rules (types.ts)\<close>

text \<open>\<open>RuleType\<close> and \<open>ComplianceRule\<close>, as declared in types.ts.\<close>

datatype RuleType =
    PROHIBITED_PHRASE
  | REQUIRED_DISCLAIMER
  | PROHIBITED_PATTERN
  | REQUIRED_PATTERN

record ComplianceRule =
  rule_id :: string
  rule_type :: RuleType
  pattern :: string
  description :: string
  severity :: string
  remediation :: string
  is_regex :: bool

subsection \<open>RuleMatcher\<close>

text \<open>
  Modelled from the spec: the regular-expression engine, which the specification leaves
  open.  \<open>compile p\<close> is \<open>None\<close> when the pattern \<open>p\<close> does not compile, and otherwise the
  search of the compiled pattern, giving the span of the first match in a text.
\<close>

type_synonym regex_engine = "string \<Rightarrow> (string \<Rightarrow> (nat \<times> nat) option) option"

text \<open>
  Modelled from the spec: case folding for "case-insensitive literal containment"
  (section 3), here on the ASCII letters.
\<close>

definition lower_char :: "char \<Rightarrow> char" where
  "lower_char c =
     (let n = (of_char c :: nat) in if 65 \<le> n \<and> n \<le> 90 then char_of (n + 32) else c)"

text \<open>Modelled from the spec: the case folding of a text, character by character.\<close>

definition lower :: "string \<Rightarrow> string" where
  "lower s = map lower_char s"

text \<open>
  Modelled from the spec: literal containment (section 4.1, "pattern found in text"),
  as the search for the first position at which the pattern starts; the span of the match
  is returned, \<open>i\<close> being the position of the text in the whole.
\<close>

fun search_literal :: "string \<Rightarrow> string \<Rightarrow> nat \<Rightarrow> (nat \<times> nat) option" where
  "search_literal pat [] i = (if pat = [] then Some (i, i) else None)"
| "search_literal pat (c # cs) i =
     (if take (length pat) (c # cs) = pat then Some (i, i + length pat)
      else search_literal pat cs (Suc i))"

text \<open>
  Modelled from the spec: the error of section 7 for a pattern that does not compile,
  carrying the id of the rule.
\<close>

datatype engine_error = RuleConfigurationError string

text \<open>Modelled from the spec: the \<open>MatchOutcome\<close> of section 4.1.\<close>

record MatchOutcome =
  triggered :: bool
  span :: "(nat \<times> nat) option"

text \<open>
  Modelled from the spec: \<open>match(rule, text)\<close> of the RuleMatcher (section 4.1).  For
  every rule type \<open>triggered\<close> says that the pattern was found; a literal is matched
  case-insensitively, a regular expression with its own flags; a pattern that does not
  compile is a RuleConfigurationError.
\<close>

definition match :: "regex_engine \<Rightarrow> ComplianceRule \<Rightarrow> string \<Rightarrow> engine_error + MatchOutcome" where
  "match compile rule text =
     (if is_regex rule then
        (case compile (pattern rule) of
           None \<Rightarrow> Inl (RuleConfigurationError (rule_id rule))
         | Some search \<Rightarrow> Inr \<lparr>triggered = (search text \<noteq> None), span = search text\<rparr>)
      else
        (let found = search_literal (lower (pattern rule)) (lower text) 0
         in Inr \<lparr>triggered = (found \<noteq> None), span = found\<rparr>))"

subsection \<open>ComplianceChecker\<close>

text \<open>Modelled from the spec: the \<open>Violation\<close> of section 4.2.\<close>

record Violation =
  violation_rule_id :: string
  violation_severity :: string
  violation_remediation :: string
  matched_span :: "(nat \<times> nat) option"

text \<open>
  Modelled from the spec: the polarity of a rule type (section 4.1): a hit of a
  prohibited rule is a violation, the absence of a required one is.
\<close>

definition prohibited :: "RuleType \<Rightarrow> bool" where
  "prohibited t = (case t of PROHIBITED_PHRASE \<Rightarrow> True | PROHIBITED_PATTERN \<Rightarrow> True
                   | REQUIRED_DISCLAIMER \<Rightarrow> False | REQUIRED_PATTERN \<Rightarrow> False)"

text \<open>
  Modelled from the spec: when a match outcome is a violation (section 4.1): triggered
  for a prohibited rule, not triggered for a required one.
\<close>

definition violated :: "RuleType \<Rightarrow> MatchOutcome \<Rightarrow> bool" where
  "violated t outcome = (if prohibited t then triggered outcome else \<not> triggered outcome)"

text \<open>
  Modelled from the spec: \<open>check(rules, text)\<close> of the ComplianceChecker (section 4.2):
  every rule is evaluated, in the order given and without short-circuiting, and each
  violated rule is reported.
\<close>

fun check :: "regex_engine \<Rightarrow> ComplianceRule list \<Rightarrow> string \<Rightarrow> engine_error + Violation list" where
  "check compile [] text = Inr []"
| "check compile (rule # rules) text =
     (case match compile rule text of
        Inl err \<Rightarrow> Inl err
      | Inr outcome \<Rightarrow>
          (case check compile rules text of
             Inl err \<Rightarrow> Inl err
           | Inr violations \<Rightarrow>
               Inr (if violated (rule_type rule) outcome
                    then \<lparr>violation_rule_id = rule_id rule,
                          violation_severity = severity rule,
                          violation_remediation = remediation rule,
                          matched_span = span outcome\<rparr> # violations
                    else violations)))"

text \<open>
  Modelled from the spec: what "the pattern is found in the text" means (sections 3 and
  4.1), stated without the search: a literal occurs somewhere in the text, letter case
  aside; a regular expression has a match.
\<close>

definition pattern_found :: "regex_engine \<Rightarrow> ComplianceRule \<Rightarrow> string \<Rightarrow> bool" where
  "pattern_found compile rule text =
     (if is_regex rule then (\<exists>search. compile (pattern rule) = Some search \<and> search text \<noteq> None)
      else (\<exists>before after. lower text = before @ lower (pattern rule) @ after))"

text \<open>
  Modelled from the spec: the invariant of a ComplianceRule (section 3): the pattern of
  a regex rule compiles.
\<close>

definition well_configured :: "regex_engine \<Rightarrow> ComplianceRule \<Rightarrow> bool" where
  "well_configured compile rule = (is_regex rule \<longrightarrow> compile (pattern rule) \<noteq> None)"

subsection \<open>Risk tiers and the checks they require\<close>

text \<open>Modelled from the spec: the three tiers of section 3, in their order.\<close>

datatype RiskTier = INFORMATIONAL | ADVISORY | DECISION_SUPPORT

text \<open>
  Modelled from the spec: the checks named in section 4.5: no critical violation of a
  safety rule, the presence of the disclaimer, accuracy at or above its threshold,
  \<open>grounded_fraction\<close> at or above the configured minimum, no violation of severity
  high or above.
\<close>

datatype certification_check =
    NoCriticalSafetyViolation
  | DisclaimerPresence
  | AccuracyAtLeastThreshold
  | GroundedFractionAtLeastMinimum
  | NoViolationOfHighSeverity

text \<open>
  Modelled from the spec: the checks the CertificationEvaluator requires at
  INFORMATIONAL (section 4.5).
\<close>

definition informational_checks :: "certification_check list" where
  "informational_checks = [NoCriticalSafetyViolation]"

text \<open>
  Modelled from the spec: at ADVISORY, the checks of INFORMATIONAL plus the presence of
  the disclaimer and the accuracy threshold (section 4.5).
\<close>

definition advisory_checks :: "certification_check list" where
  "advisory_checks = informational_checks @ [DisclaimerPresence, AccuracyAtLeastThreshold]"

text \<open>
  Modelled from the spec: at DECISION_SUPPORT, the checks of ADVISORY plus the grounded
  fraction and the absence of violations of high severity (section 4.5).
\<close>

definition decision_support_checks :: "certification_check list" where
  "decision_support_checks =
     advisory_checks @ [GroundedFractionAtLeastMinimum, NoViolationOfHighSeverity]"

text \<open>
  Modelled from the spec: the table from tier to required checks that section 9 asks
  for.
\<close>

definition required_checks :: "RiskTier \<Rightarrow> certification_check list" where
  "required_checks tier =
     (case tier of
        INFORMATIONAL \<Rightarrow> informational_checks
      | ADVISORY \<Rightarrow> advisory_checks
      | DECISION_SUPPORT \<Rightarrow> decision_support_checks)"

text \<open>
  Modelled from the spec: the part of a DomainTemplate (section 3) that decides its
  required checks; the other fields do not enter.
\<close>

record DomainTemplate =
  template_full_name :: string
  risk_tier :: RiskTier

text \<open>
  Modelled from the spec: the set of checks required of a template at a tier
  (section 8); it depends on the tier alone.
\<close>

definition checks_required_at :: "DomainTemplate \<Rightarrow> RiskTier \<Rightarrow> certification_check set" where
  "checks_required_at template tier = set (required_checks tier)"

subsection \<open>GroundingValidator\<close>

text \<open>
  Modelled from the spec: the configurable parts of the GroundingValidator (section 4.3):
  the segmentation of a response into sentences, the disclaimer pattern, the tokens of a
  text (lower case, stop words removed) and the overlap threshold.
\<close>

record GroundingConfig =
  sentences :: "string \<Rightarrow> string list"
  is_disclaimer :: "string \<Rightarrow> bool"
  tokens :: "string \<Rightarrow> string list"
  overlap_threshold :: rat

text \<open>
  Modelled from the spec: claim extraction (section 4.3): the sentences of the response
  that are not disclaimers.
\<close>

definition extract_claims :: "GroundingConfig \<Rightarrow> string \<Rightarrow> string list" where
  "extract_claims cfg response = filter (\<lambda>s. \<not> is_disclaimer cfg s) (sentences cfg response)"

text \<open>
  Modelled from the spec: the lexical overlap of a claim with a source (section 4.3): the
  fraction of the claim's tokens present in the source; a claim without tokens overlaps
  with nothing.
\<close>

definition overlap :: "GroundingConfig \<Rightarrow> string \<Rightarrow> string \<Rightarrow> rat" where
  "overlap cfg claim source =
     (let ts = tokens cfg claim in
      if ts = [] then 0
      else of_nat (length (filter (\<lambda>t. t \<in> set (tokens cfg source)) ts)) / of_nat (length ts))"

text \<open>Modelled from the spec: the per-claim record of a GroundingResult (section 3).\<close>

record ClaimRecord =
  claim_text :: string
  matched_citation :: "string option"
  confidence :: rat

text \<open>
  Modelled from the spec: a claim is supported by the first knowledge-base entry whose
  overlap with it exceeds the threshold (section 4.3).
\<close>

fun match_citation :: "GroundingConfig \<Rightarrow> (string \<times> string) list \<Rightarrow> string \<Rightarrow> ClaimRecord" where
  "match_citation cfg [] claim =
     \<lparr>claim_text = claim, matched_citation = None, confidence = 0\<rparr>"
| "match_citation cfg ((citation_id, source) # kb) claim =
     (if overlap cfg claim source > overlap_threshold cfg
      then \<lparr>claim_text = claim, matched_citation = Some citation_id,
            confidence = overlap cfg claim source\<rparr>
      else match_citation cfg kb claim)"

text \<open>
  Modelled from the spec: the GroundingResult (sections 3 and 4.3): the per-claim
  records and the aggregate.
\<close>

record GroundingResult =
  claims :: "ClaimRecord list"
  total_claims :: nat
  supported_claims :: nat
  grounded_fraction :: rat

text \<open>
  Modelled from the spec: \<open>validate(response, knowledge_base)\<close> of the GroundingValidator
  (section 4.3), with \<open>grounded_fraction = supported_claims / total_claims\<close>, and 1 when
  there is no claim.
\<close>

definition validate :: "GroundingConfig \<Rightarrow> string \<Rightarrow> (string \<times> string) list \<Rightarrow> GroundingResult" where
  "validate cfg response knowledge_base =
     (let records = map (match_citation cfg knowledge_base) (extract_claims cfg response);
          total = length records;
          supported = length (filter (\<lambda>r. matched_citation r \<noteq> None) records)
      in \<lparr>claims = records, total_claims = total, supported_claims = supported,
          grounded_fraction = (if total = 0 then 1 else of_nat supported / of_nat total)\<rparr>)"

text \<open>
  Modelled from the spec: the defaults named in sections 4.3 and 9: sentences end at a
  full stop, an exclamation mark or a question mark; tokens are the words between
  spaces, in lower case, without stop words; the threshold is 0.6.
\<close>

fun split_at :: "(char \<Rightarrow> bool) \<Rightarrow> string \<Rightarrow> string list" where
  "split_at sep [] = [[]]"
| "split_at sep (c # cs) =
     (if sep c then [] # split_at sep cs
      else (case split_at sep cs of s # ss \<Rightarrow> (c # s) # ss | [] \<Rightarrow> [[c]]))"

text \<open>
  Modelled from the spec: the default configuration, with the disclaimer of the scenario
  of section 8 as the disclaimer pattern.
\<close>

definition default_config :: GroundingConfig where
  "default_config =
     \<lparr>sentences = (\<lambda>text. filter (\<lambda>s. s \<noteq> [])
                      (split_at (\<lambda>c. c \<in> set ''.!?'') text)),
      is_disclaimer = (\<lambda>s. search_literal ''not medical advice'' (lower s) 0 \<noteq> None),
      tokens = (\<lambda>text. filter (\<lambda>w. w \<noteq> [] \<and> w \<notin> set [''the'', ''a'', ''an'', ''is'', ''of''])
                  (split_at (\<lambda>c. c = CHR '' '') (lower text))),
      overlap_threshold = 6 / 10\<rparr>"

text \<open>
  Modelled from the spec: the REQUIRED_DISCLAIMER rule of the end-to-end scenario of
  section 8.
\<close>

definition disclaimer_rule :: ComplianceRule where
  "disclaimer_rule =
     \<lparr>rule_id = ''healthcare.disclaimer'', rule_type = REQUIRED_DISCLAIMER,
      pattern = ''This is not medical advice'', description = ''Responses carry the disclaimer'',
      severity = ''medium'', remediation = ''Append the disclaimer'', is_regex = False\<rparr>"

section \<open>Properties of the two clients\<close>

subsection \<open>The shape of a method call\<close>

lemmas sdk_method_defs =
  getTemplates_sdk_def applyTemplate_sdk_def validateTemplate_sdk_def getToolCollection_sdk_def
  getDomainConfig_sdk_def getPromptPattern_sdk_def listDomains_sdk_def getTemplate_sdk_def

lemmas fetch_method_defs =
  getTemplates_fetch_def applyTemplate_fetch_def validateTemplate_fetch_def
  getToolCollection_fetch_def getDomainConfig_fetch_def getPromptPattern_fetch_def
  listDomains_fetch_def getTemplate_fetch_def

lemmas run_defs =
  createAgentVerticalClient_fetch_def createAgentVerticalClient_sdk_def methods_fetch_def
  methods_sdk_def return_fetchJson_def callApi_thunk_def fetchJson_def fetchJson_catch_def
  GET_init_def buildHeaders_def encoded_path_def callApi_def callApi_catch_def

lemmas encode_defs =
  encodeURIComponent_def uriUnescaped_def js_def CodePointAt_def isLeadingSurrogate_def
  isTrailingSurrogate_def utf8_def percentEscape_def hexDigit_def

lemma localhost_simps [simp]:
  "baseUrl localhost = js ''http://localhost:8093''" "timeoutMs localhost = None"
  "headers localhost = None"
  by (simp_all add: localhost_def)

lemma encoded_path_Inl: "encoded_path prefix v suffix = Inl err \<Longrightarrow> err = URIError"
  by (auto simp: encoded_path_def split: option.splits)

lemma methods_sdk_shape:
  "\<exists>thunk. methods_sdk http call = callApi_thunk http thunk
     \<and> (\<forall>err. thunk = Inl err \<longrightarrow> err = URIError)"
proof (cases call)
  case (ValidateTemplate n)
  then show ?thesis
    by (cases "encoded_path (js ''/vertical/templates/'') n (js ''/validate'')")
      (auto simp: methods_sdk_def sdk_method_defs dest: encoded_path_Inl)
next
  case (GetDomainConfig n)
  then show ?thesis
    by (cases "encoded_path (js ''/vertical/domains/'') n (js ''/config'')")
      (auto simp: methods_sdk_def sdk_method_defs dest: encoded_path_Inl)
next
  case (GetPromptPattern n)
  then show ?thesis
    by (cases "encoded_path (js ''/vertical/domains/'') n (js ''/rules'')")
      (auto simp: methods_sdk_def sdk_method_defs dest: encoded_path_Inl)
next
  case (GetTemplate n)
  then show ?thesis
    by (cases "encoded_path (js ''/vertical/templates/'') n []")
      (auto simp: methods_sdk_def sdk_method_defs dest: encoded_path_Inl)
qed (auto simp: methods_sdk_def sdk_method_defs Let_def)

lemma methods_fetch_shape:
  "\<exists>url init. methods_fetch rt base t hs call = return_fetchJson rt url init t"
  by (cases call) (auto simp: methods_fetch_def fetch_method_defs Let_def)

lemma callApi_thunk_calls:
  "library_calls (callApi_thunk http thunk) = []
     \<and> (\<exists>err. thunk = Inl err \<and> returned (callApi_thunk http thunk) = callApi (Rejected err))
   \<or> (\<exists>c. library_calls (callApi_thunk http thunk) = [c]
          \<and> returned (callApi_thunk http thunk) = callApi (http c))"
  by (cases thunk) (simp_all add: callApi_thunk_def)

lemma sdk_calls:
  "library_calls (methods_sdk http call) = []
     \<and> returned (methods_sdk http call) = callApi (Rejected URIError)
   \<or> (\<exists>c. library_calls (methods_sdk http call) = [c]
          \<and> returned (methods_sdk http call) = callApi (http c))"
proof -
  from methods_sdk_shape [of http call] obtain thunk where
    m: "methods_sdk http call = callApi_thunk http thunk"
    and u: "\<forall>err. thunk = Inl err \<longrightarrow> err = URIError"
    by blast
  from callApi_thunk_calls [of http thunk] u show ?thesis
    unfolding m by auto
qed

lemma return_fetchJson_calls:
  "fetch_calls (return_fetchJson rt url init t) = []
     \<and> (\<exists>err. settled (return_fetchJson rt url init t) = Rejected err)
   \<or> (\<exists>c. fetch_calls (return_fetchJson rt url init t) = [c] \<and> call_timeoutMs c = t
          \<and> settled (return_fetchJson rt url init t)
              = fst (fetchJson rt (call_url c) (call_init c) (call_timeoutMs c)))"
  by (cases url; cases init) (simp_all add: return_fetchJson_def fetchJson_def Let_def)

lemma fetch_calls_cases:
  "fetch_calls (methods_fetch rt base t hs call) = []
     \<and> (\<exists>err. settled (methods_fetch rt base t hs call) = Rejected err)
   \<or> (\<exists>c. fetch_calls (methods_fetch rt base t hs call) = [c] \<and> call_timeoutMs c = t
          \<and> settled (methods_fetch rt base t hs call)
              = fst (fetchJson rt (call_url c) (call_init c) (call_timeoutMs c)))"
  using methods_fetch_shape [of rt base t hs call] return_fetchJson_calls [of rt] by metis

subsection \<open>\<open>fetchJson\<close> and \<open>callApi\<close> by outcome\<close>

lemma fetchJson_never_rejects: "fst (fetchJson rt url init t) \<noteq> Rejected err"
  by (auto simp: fetchJson_def Let_def split: fetch_event.splits promise.splits)

lemma callApi_never_rejects: "callApi p \<noteq> Rejected err"
  by (auto simp: callApi_def split: promise.splits)


lemma fetchJson_bad_json:
  "fetch rt url init t = Responded response \<Longrightarrow> response_json response = Rejected err \<Longrightarrow>
   fst (fetchJson rt url init t) = Fulfilled (fetchJson_catch err)"
  by (simp add: fetchJson_def)

lemma fetchJson_server_error:
  "fetch rt url init t = Responded response \<Longrightarrow> \<not> response_ok response \<Longrightarrow>
   response_json response = Fulfilled parsed \<Longrightarrow> parsed \<noteq> JNull \<Longrightarrow>
   \<exists>e. fst (fetchJson rt url init t) = Fulfilled (NotOk e (response_status response))"
  by (cases parsed) (simp_all add: fetchJson_def property_def)

lemma fetchJson_nonzero:
  assumes "fst (fetchJson rt url init t) = Fulfilled (NotOk e s)" and "s \<noteq> 0"
  shows "\<exists>response parsed. fetch rt url init t = Responded response \<and> \<not> response_ok response
           \<and> response_status response = s \<and> response_json response = Fulfilled parsed
           \<and> parsed \<noteq> JNull"
  using assms
  by (auto simp: fetchJson_def fetchJson_catch_def Let_def property_def
      split: fetch_event.splits promise.splits if_splits sum.splits json.splits)

lemma fetchJson_zero:
  assumes "fst (fetchJson rt url init t) = Fulfilled (NotOk e 0)"
  shows "transport_failure_fetch (fetch rt url init t)
         \<or> (\<exists>response. fetch rt url init t = Responded response
               \<and> ((\<exists>err. response_json response = Rejected err)
                    \<or> (\<not> response_ok response \<and> response_json response = Fulfilled JNull)
                    \<or> (\<not> response_ok response \<and> response_status response = 0)))"
  using assms
  by (auto simp: fetchJson_def fetchJson_catch_def Let_def property_def transport_failure_fetch_def
      split: fetch_event.splits promise.splits if_splits sum.splits json.splits)

lemma fetchJson_transport_failure:
  "transport_failure_fetch (fetch rt url init t) \<Longrightarrow>
   \<exists>e. fst (fetchJson rt url init t) = Fulfilled (NotOk e 0)"
  by (auto simp: transport_failure_fetch_def fetchJson_def fetchJson_catch_def
      split: fetch_event.splits)

lemma callApi_transport_failure:
  "transport_failure_sdk p \<Longrightarrow> \<exists>e. callApi p = Fulfilled (NotOk e 0)"
  by (auto simp: transport_failure_sdk_def callApi_def callApi_catch_def
      split: promise.splits thrown.splits)

lemma callApi_nonzero:
  assumes "callApi p = Fulfilled (NotOk e s)" and "s \<noteq> 0"
  shows "(\<exists>msg b. p = Rejected (HttpError msg b s))
         \<or> (\<exists>code msg. p = Rejected (AumosError code msg (Some s)))"
  using assms
  by (auto simp: callApi_def callApi_catch_def
      split: promise.splits thrown.splits option.splits)

lemma callApi_HttpError:
  "\<exists>e. callApi (Rejected (HttpError msg b s)) = Fulfilled (NotOk e s)"
  by (simp add: callApi_def callApi_catch_def)

subsection \<open>The envelope\<close>

text \<open>
  The promise that a method of the client over sdk-core returns is never rejected.  The
  promise that a method of the client over \<open>fetch\<close> returns is never rejected once the
  method has reached \<open>fetch\<close>; a call that does not reach it is rejected with what
  building the URL or the request body threw.
\<close>

lemma sdk_client_never_rejects:
  "returned (createAgentVerticalClient_sdk mk config call) \<noteq> Rejected err"
  using sdk_calls [of "mk (baseUrl config)
      (case timeoutMs config of None \<Rightarrow> 30000 | Some t \<Rightarrow> t) (headers config)" call]
  by (auto simp: createAgentVerticalClient_sdk_def Let_def callApi_never_rejects)

lemma fetch_client_never_rejects_when_requested:
  "fetch_calls (createAgentVerticalClient_fetch rt config call) \<noteq> [] \<Longrightarrow>
   settled (createAgentVerticalClient_fetch rt config call) \<noteq> Rejected err"
  using fetch_calls_cases [of rt "baseUrl config"
      "case timeoutMs config of None \<Rightarrow> 30000 | Some t \<Rightarrow> t" "buildHeaders (headers config)" call]
  by (auto simp: createAgentVerticalClient_fetch_def Let_def fetchJson_never_rejects
      fetchJson_never_rejects [THEN not_sym])

lemma applyTemplate_unserializable:
  "JSON_stringify rt templateConfig = Inl err \<Longrightarrow>
   settled (createAgentVerticalClient_fetch rt config (ApplyTemplate templateConfig)) = Rejected err
   \<and> fetch_calls (createAgentVerticalClient_fetch rt config (ApplyTemplate templateConfig)) = []"
  by (simp add: createAgentVerticalClient_fetch_def methods_fetch_def applyTemplate_fetch_def
      return_fetchJson_def Let_def)

text \<open>
  Claim C1.  Every method call on either client returns a promise that is fulfilled with
  an envelope and is never rejected.  The client over \<open>fetch\<close> breaks this: for the
  template name made of the single unpaired surrogate U+D800, \<open>getTemplate\<close> returns a
  promise rejected with the URIError of \<open>encodeURIComponent\<close>, without calling \<open>fetch\<close>.
  The client over sdk-core, which builds the path inside the thunk given to \<open>callApi\<close>,
  returns the envelope \<open>{ok: false, error: {error: "Unexpected error", ...}, status: 0}\<close>
  for the same call.
\<close>

theorem fetch_client_rejects_unpaired_surrogate:
  "settled (createAgentVerticalClient_fetch rt localhost (GetTemplate [0xD800])) = Rejected URIError
   \<and> fetch_calls (createAgentVerticalClient_fetch rt localhost (GetTemplate [0xD800])) = []
   \<and> returned (createAgentVerticalClient_sdk mk localhost (GetTemplate [0xD800]))
       = Fulfilled (NotOk \<lparr>error = JStr (js ''Unexpected error''),
                            detail = JStr (js ''URI malformed'')\<rparr> 0)"
  by (simp add: createAgentVerticalClient_fetch_def createAgentVerticalClient_sdk_def
      methods_fetch_def methods_sdk_def getTemplate_fetch_def getTemplate_sdk_def
      encoded_path_def encodeURIComponent_def uriUnescaped_def js_def CodePointAt_def
      isLeadingSurrogate_def isTrailingSurrogate_def return_fetchJson_def callApi_thunk_def
      callApi_def callApi_catch_def URIError_def instanceofError_def message_def)

subsection \<open>Requests per call\<close>



subsection \<open>The status of a failure\<close>

lemma callApi_zero:
  assumes "callApi p = Fulfilled (NotOk e 0)"
  shows "\<exists>err. p = Rejected err
           \<and> \<not> (\<exists>msg b s. s \<noteq> 0 \<and> err = HttpError msg b s)
           \<and> \<not> (\<exists>code msg s. s \<noteq> 0 \<and> err = AumosError code msg (Some s))"
  using assms
  by (auto simp: callApi_def callApi_catch_def
      split: promise.splits thrown.splits option.splits)

text \<open>
  Claim C3, as stated: a failure envelope has status 0 exactly when the failure was one
  of transport, and a server-reported error carries its HTTP status.  Two calls break
  it.  On the client over sdk-core, \<open>getDomainConfig\<close> with the unpaired surrogate U+D800
  returns status 0 without any call to the library: nothing was transported.  On the
  client over \<open>fetch\<close>, a response with status 500 whose body is not JSON is returned
  with status 0.
\<close>

theorem status_zero_counterexample:
  "returned (createAgentVerticalClient_sdk not_found_createHttpClient localhost
       (GetDomainConfig [0xD800]))
     = Fulfilled (NotOk \<lparr>error = JStr (js ''Unexpected error''),
                          detail = JStr (js ''URI malformed'')\<rparr> 0)
   \<and> library_calls (createAgentVerticalClient_sdk not_found_createHttpClient localhost
         (GetDomainConfig [0xD800])) = []
   \<and> fetch_calls (createAgentVerticalClient_fetch runtime_500_html localhost ListDomains)
       = [domains_call]
   \<and> event_of runtime_500_html domains_call
       = Responded \<lparr>response_ok = False, response_status = 500,
                    response_json = Rejected SyntaxError\<rparr>
   \<and> \<not> transport_failure_fetch (event_of runtime_500_html domains_call)
   \<and> settled (createAgentVerticalClient_fetch runtime_500_html localhost ListDomains)
       = Fulfilled (NotOk \<lparr>error = JStr (js ''Network error''),
                            detail = JStr (message SyntaxError)\<rparr> 0)"
  by (simp add: run_defs listDomains_fetch_def getDomainConfig_sdk_def runtime_500_html_def
      SyntaxError_def instanceofError_def message_def transport_failure_fetch_def event_of_def
      domains_call_def URIError_def encode_defs)

text \<open>
  Claim C3, amended.  On both clients a failure of transport is returned with status 0,
  and a failure envelope with a status other than 0 carries a status that the server
  reported.  A server-reported error is returned with its HTTP status by the client over
  sdk-core for every HttpError, and by the client over \<open>fetch\<close> whenever the body of the
  error response is JSON other than \<open>null\<close>.  Besides the failures of transport, status
  0 is returned in these cases only: on the client over \<open>fetch\<close>, when the body of a
  response cannot be read as JSON and when the body of an error response is \<open>null\<close> (or
  the response itself has status 0); on the client over sdk-core, when the URL could not
  be built and when what was thrown is neither an HttpError nor an AumosError with a
  status code other than 0.
\<close>

theorem status_meaning:
  "(\<forall>c \<in> set (fetch_calls (createAgentVerticalClient_fetch rt config call)).
      transport_failure_fetch (event_of rt c) \<longrightarrow>
      (\<exists>e. settled (createAgentVerticalClient_fetch rt config call) = Fulfilled (NotOk e 0)))
   \<and> (\<forall>c \<in> set (fetch_calls (createAgentVerticalClient_fetch rt config call)).
         \<forall>response parsed. event_of rt c = Responded response \<and> \<not> response_ok response
             \<and> response_json response = Fulfilled parsed \<and> parsed \<noteq> JNull \<longrightarrow>
           (\<exists>e. settled (createAgentVerticalClient_fetch rt config call)
                  = Fulfilled (NotOk e (response_status response))))
   \<and> (\<forall>e s. settled (createAgentVerticalClient_fetch rt config call) = Fulfilled (NotOk e s)
         \<and> s \<noteq> 0 \<longrightarrow>
         (\<exists>c \<in> set (fetch_calls (createAgentVerticalClient_fetch rt config call)).
            \<exists>response. event_of rt c = Responded response \<and> \<not> response_ok response
              \<and> response_status response = s))
   \<and> (\<forall>e. settled (createAgentVerticalClient_fetch rt config call) = Fulfilled (NotOk e 0)
         \<longrightarrow>
         (\<exists>c \<in> set (fetch_calls (createAgentVerticalClient_fetch rt config call)).
            transport_failure_fetch (event_of rt c)
            \<or> (\<exists>response. event_of rt c = Responded response
                  \<and> ((\<exists>err. response_json response = Rejected err)
                       \<or> (\<not> response_ok response \<and> response_json response = Fulfilled JNull)
                       \<or> (\<not> response_ok response \<and> response_status response = 0)))))
   \<and> (\<forall>c \<in> set (library_calls (createAgentVerticalClient_sdk mk config call)).
         \<forall>answer. answer = mk (baseUrl config)
             (case timeoutMs config of None \<Rightarrow> 30000 | Some t \<Rightarrow> t) (headers config) c \<longrightarrow>
           (transport_failure_sdk answer \<longrightarrow>
              (\<exists>e. returned (createAgentVerticalClient_sdk mk config call)
                     = Fulfilled (NotOk e 0)))
           \<and> (\<forall>msg b s. answer = Rejected (HttpError msg b s) \<longrightarrow>
                (\<exists>e. returned (createAgentVerticalClient_sdk mk config call)
                       = Fulfilled (NotOk e s))))
   \<and> (\<forall>e s. returned (createAgentVerticalClient_sdk mk config call) = Fulfilled (NotOk e s)
         \<and> s \<noteq> 0 \<longrightarrow>
         (\<exists>c \<in> set (library_calls (createAgentVerticalClient_sdk mk config call)).
            \<exists>answer. answer = mk (baseUrl config)
                (case timeoutMs config of None \<Rightarrow> 30000 | Some t \<Rightarrow> t) (headers config) c
              \<and> ((\<exists>msg b. answer = Rejected (HttpError msg b s))
                   \<or> (\<exists>code msg. answer = Rejected (AumosError code msg (Some s))))))
   \<and> (\<forall>e. returned (createAgentVerticalClient_sdk mk config call) = Fulfilled (NotOk e 0)
         \<longrightarrow>
         library_calls (createAgentVerticalClient_sdk mk config call) = []
         \<or> (\<exists>c \<in> set (library_calls (createAgentVerticalClient_sdk mk config call)).
              \<exists>err. mk (baseUrl config)
                  (case timeoutMs config of None \<Rightarrow> 30000 | Some t \<Rightarrow> t) (headers config) c
                  = Rejected err
                \<and> \<not> (\<exists>msg b s. s \<noteq> 0 \<and> err = HttpError msg b s)
                \<and> \<not> (\<exists>code msg s. s \<noteq> 0 \<and> err = AumosError code msg (Some s))))"
proof -
  let ?t = "case timeoutMs config of None \<Rightarrow> 30000 | Some t \<Rightarrow> t"
  let ?http = "mk (baseUrl config) ?t (headers config)"
  let ?f = "methods_fetch rt (baseUrl config) ?t (buildHeaders (headers config)) call"
  let ?s = "methods_sdk ?http call"
  have f: "createAgentVerticalClient_fetch rt config call = ?f"
    by (simp add: createAgentVerticalClient_fetch_def Let_def)
  have s: "createAgentVerticalClient_sdk mk config call = ?s"
    by (simp add: createAgentVerticalClient_sdk_def Let_def)
  note fc = fetch_calls_cases [of rt "baseUrl config" ?t "buildHeaders (headers config)" call]
  note sc = sdk_calls [of ?http call]
  have 1: "\<forall>c \<in> set (fetch_calls ?f). transport_failure_fetch (event_of rt c) \<longrightarrow>
             (\<exists>e. settled ?f = Fulfilled (NotOk e 0))"
    using fc by (auto simp: event_of_def dest: fetchJson_transport_failure)
  have 2: "\<forall>c \<in> set (fetch_calls ?f).
         \<forall>response parsed. event_of rt c = Responded response \<and> \<not> response_ok response
             \<and> response_json response = Fulfilled parsed \<and> parsed \<noteq> JNull \<longrightarrow>
           (\<exists>e. settled ?f = Fulfilled (NotOk e (response_status response)))"
    using fc by (auto simp: event_of_def dest: fetchJson_server_error)
  have 3: "\<forall>e s. settled ?f = Fulfilled (NotOk e s) \<and> s \<noteq> 0 \<longrightarrow>
         (\<exists>c \<in> set (fetch_calls ?f).
            \<exists>response. event_of rt c = Responded response \<and> \<not> response_ok response
              \<and> response_status response = s)"
  proof (intro allI impI)
    fix e s
    assume a: "settled ?f = Fulfilled (NotOk e s) \<and> s \<noteq> 0"
    from fc show "\<exists>c \<in> set (fetch_calls ?f).
            \<exists>response. event_of rt c = Responded response \<and> \<not> response_ok response
              \<and> response_status response = s"
    proof
      assume "fetch_calls ?f = [] \<and> (\<exists>err. settled ?f = Rejected err)"
      with a show ?thesis by auto
    next
      assume "\<exists>c. fetch_calls ?f = [c] \<and> call_timeoutMs c = ?t
          \<and> settled ?f = fst (fetchJson rt (call_url c) (call_init c) (call_timeoutMs c))"
      then obtain c where c: "fetch_calls ?f = [c]"
        and r: "settled ?f = fst (fetchJson rt (call_url c) (call_init c) (call_timeoutMs c))"
        by blast
      from r a have "fst (fetchJson rt (call_url c) (call_init c) (call_timeoutMs c))
          = Fulfilled (NotOk e s)"
        by simp
      from fetchJson_nonzero [OF this] a c show ?thesis
        by (auto simp: event_of_def)
    qed
  qed
  have 4: "\<forall>e. settled ?f = Fulfilled (NotOk e 0) \<longrightarrow>
         (\<exists>c \<in> set (fetch_calls ?f).
            transport_failure_fetch (event_of rt c)
            \<or> (\<exists>response. event_of rt c = Responded response
                  \<and> ((\<exists>err. response_json response = Rejected err)
                       \<or> (\<not> response_ok response \<and> response_json response = Fulfilled JNull)
                       \<or> (\<not> response_ok response \<and> response_status response = 0))))"
  proof (intro allI impI)
    fix e
    assume a: "settled ?f = Fulfilled (NotOk e 0)"
    from fc show "\<exists>c \<in> set (fetch_calls ?f).
            transport_failure_fetch (event_of rt c)
            \<or> (\<exists>response. event_of rt c = Responded response
                  \<and> ((\<exists>err. response_json response = Rejected err)
                       \<or> (\<not> response_ok response \<and> response_json response = Fulfilled JNull)
                       \<or> (\<not> response_ok response \<and> response_status response = 0)))"
    proof
      assume "fetch_calls ?f = [] \<and> (\<exists>err. settled ?f = Rejected err)"
      with a show ?thesis by auto
    next
      assume "\<exists>c. fetch_calls ?f = [c] \<and> call_timeoutMs c = ?t
          \<and> settled ?f = fst (fetchJson rt (call_url c) (call_init c) (call_timeoutMs c))"
      then obtain c where c: "fetch_calls ?f = [c]"
        and r: "settled ?f = fst (fetchJson rt (call_url c) (call_init c) (call_timeoutMs c))"
        by blast
      from r a have "fst (fetchJson rt (call_url c) (call_init c) (call_timeoutMs c))
          = Fulfilled (NotOk e 0)"
        by simp
      from fetchJson_zero [OF this] c show ?thesis
        by (simp add: event_of_def)
    qed
  qed
  have 5: "\<forall>c \<in> set (library_calls ?s). \<forall>answer. answer = ?http c \<longrightarrow>
           (transport_failure_sdk answer \<longrightarrow> (\<exists>e. returned ?s = Fulfilled (NotOk e 0)))
           \<and> (\<forall>msg b s. answer = Rejected (HttpError msg b s) \<longrightarrow>
                (\<exists>e. returned ?s = Fulfilled (NotOk e s)))"
    using sc by (auto dest: callApi_transport_failure simp: callApi_HttpError)
  have 6: "\<forall>e s. returned ?s = Fulfilled (NotOk e s) \<and> s \<noteq> 0 \<longrightarrow>
         (\<exists>c \<in> set (library_calls ?s).
            \<exists>answer. answer = ?http c
              \<and> ((\<exists>msg b. answer = Rejected (HttpError msg b s))
                   \<or> (\<exists>code msg. answer = Rejected (AumosError code msg (Some s)))))"
  proof (intro allI impI)
    fix e s
    assume a: "returned ?s = Fulfilled (NotOk e s) \<and> s \<noteq> 0"
    from sc show "\<exists>c \<in> set (library_calls ?s).
            \<exists>answer. answer = ?http c
              \<and> ((\<exists>msg b. answer = Rejected (HttpError msg b s))
                   \<or> (\<exists>code msg. answer = Rejected (AumosError code msg (Some s))))"
    proof
      assume "library_calls ?s = [] \<and> returned ?s = callApi (Rejected URIError)"
      with a show ?thesis by (auto simp: callApi_def callApi_catch_def URIError_def)
    next
      assume "\<exists>c. library_calls ?s = [c] \<and> returned ?s = callApi (?http c)"
      then obtain c where c: "library_calls ?s = [c]"
        and r: "returned ?s = callApi (?http c)"
        by blast
      from r a have "callApi (?http c) = Fulfilled (NotOk e s)" by simp
      from callApi_nonzero [OF this] a c show ?thesis by auto
    qed
  qed
  have 7: "\<forall>e. returned ?s = Fulfilled (NotOk e 0) \<longrightarrow>
         library_calls ?s = []
         \<or> (\<exists>c \<in> set (library_calls ?s).
              \<exists>err. ?http c = Rejected err
                \<and> \<not> (\<exists>msg b s. s \<noteq> 0 \<and> err = HttpError msg b s)
                \<and> \<not> (\<exists>code msg s. s \<noteq> 0 \<and> err = AumosError code msg (Some s)))"
  proof (intro allI impI)
    fix e
    assume a: "returned ?s = Fulfilled (NotOk e 0)"
    from sc show "library_calls ?s = []
         \<or> (\<exists>c \<in> set (library_calls ?s).
              \<exists>err. ?http c = Rejected err
                \<and> \<not> (\<exists>msg b s. s \<noteq> 0 \<and> err = HttpError msg b s)
                \<and> \<not> (\<exists>code msg s. s \<noteq> 0 \<and> err = AumosError code msg (Some s)))"
    proof
      assume "library_calls ?s = [] \<and> returned ?s = callApi (Rejected URIError)"
      then show ?thesis by simp
    next
      assume "\<exists>c. library_calls ?s = [c] \<and> returned ?s = callApi (?http c)"
      then obtain c where c: "library_calls ?s = [c]"
        and r: "returned ?s = callApi (?http c)"
        by blast
      from r a have "callApi (?http c) = Fulfilled (NotOk e 0)" by simp
      from callApi_zero [OF this] c show ?thesis by simp
    qed
  qed
  show ?thesis unfolding f s using 1 2 3 4 5 6 7 by blast
qed

theorem status_meaning_witness:
  "fetch_calls (createAgentVerticalClient_fetch runtime_404_json localhost ListDomains)
     = [domains_call]
   \<and> settled (createAgentVerticalClient_fetch runtime_404_json localhost ListDomains)
       = Fulfilled (NotOk \<lparr>error = JStr (js ''Not found''), detail = JStr []\<rparr> 404)
   \<and> event_of runtime_404_json domains_call
       = Responded \<lparr>response_ok = False, response_status = 404,
                    response_json = Fulfilled (JObj [(js ''error'', JStr (js ''Not found''))])\<rparr>
   \<and> fetch_calls (createAgentVerticalClient_fetch runtime_unreachable localhost ListDomains)
       = [domains_call]
   \<and> transport_failure_fetch (event_of runtime_unreachable domains_call)
   \<and> (\<exists>e. settled (createAgentVerticalClient_fetch runtime_unreachable localhost ListDomains)
          = Fulfilled (NotOk e 0))
   \<and> library_calls (createAgentVerticalClient_sdk not_found_createHttpClient localhost ListDomains)
       = [HttpGet (js ''/vertical/domains'') None]
   \<and> (\<exists>e. returned (createAgentVerticalClient_sdk not_found_createHttpClient localhost ListDomains)
          = Fulfilled (NotOk e 404))"
proof -
  have a: "fetch_calls (createAgentVerticalClient_fetch runtime_404_json localhost ListDomains)
     = [domains_call]"
    by (simp add: run_defs listDomains_fetch_def js_def domains_call_def)
  have b: "settled (createAgentVerticalClient_fetch runtime_404_json localhost ListDomains)
       = Fulfilled (NotOk \<lparr>error = JStr (js ''Not found''), detail = JStr []\<rparr> 404)"
    by (simp add: run_defs listDomains_fetch_def runtime_404_json_def property_def nullish_def
        js_def)
  have c: "event_of runtime_404_json domains_call
       = Responded \<lparr>response_ok = False, response_status = 404,
                    response_json = Fulfilled (JObj [(js ''error'', JStr (js ''Not found''))])\<rparr>"
    by (simp add: event_of_def runtime_404_json_def)
  have d: "fetch_calls (createAgentVerticalClient_fetch runtime_unreachable localhost ListDomains)
       = [domains_call]"
    by (simp add: run_defs listDomains_fetch_def js_def domains_call_def)
  have e: "transport_failure_fetch (event_of runtime_unreachable domains_call)"
    by (simp add: transport_failure_fetch_def event_of_def runtime_unreachable_def)
  have f: "library_calls (createAgentVerticalClient_sdk not_found_createHttpClient localhost
             ListDomains) = [HttpGet (js ''/vertical/domains'') None]"
    by (simp add: run_defs listDomains_sdk_def)
  have g: "not_found_createHttpClient (baseUrl localhost) 30000 (headers localhost)
             (HttpGet (js ''/vertical/domains'') None)
           = Rejected (HttpError (js ''Not Found'') None 404)"
    by (simp add: not_found_createHttpClient_def)
  note A = status_meaning [of runtime_unreachable localhost ListDomains not_found_createHttpClient]
  from A d e have u: "\<exists>e. settled (createAgentVerticalClient_fetch runtime_unreachable localhost
      ListDomains) = Fulfilled (NotOk e 0)"
    by simp
  from A f g have n: "\<exists>e. returned (createAgentVerticalClient_sdk not_found_createHttpClient
      localhost ListDomains) = Fulfilled (NotOk e 404)"
    by simp
  from a b c d e f u n show ?thesis by simp
qed

subsection \<open>\<open>validateTemplate\<close>\<close>

text \<open>
  Claim C4, as stated: \<open>validateTemplate\<close> sends a POST request to
  \<open>/templates/{name}/validate\<close>.  For the name \<open>triage\<close> the client over \<open>fetch\<close> sends a
  GET request to \<open>/vertical/templates/triage/validate\<close>, and the client over sdk-core
  calls \<open>http.get\<close> with that path.
\<close>

theorem validateTemplate_method_counterexample:
  "fetch_calls (createAgentVerticalClient_fetch runtime_validation_ok localhost
       (ValidateTemplate (js ''triage'')))
     = [\<lparr>call_url = js ''http://localhost:8093/vertical/templates/triage/validate'',
         call_init = \<lparr>init_method = js ''GET'', init_headers = buildHeaders None, body = None\<rparr>,
         call_timeoutMs = 30000\<rparr>]
   \<and> init_method (call_init (hd (fetch_calls (createAgentVerticalClient_fetch
         runtime_validation_ok localhost (ValidateTemplate (js ''triage''))))))
       \<noteq> js ''POST''
   \<and> library_calls (createAgentVerticalClient_sdk validation_ok_createHttpClient localhost
         (ValidateTemplate (js ''triage'')))
       = [HttpGet (js ''/vertical/templates/triage/validate'') None]"
  by (simp add: run_defs validateTemplate_fetch_def validateTemplate_sdk_def encode_defs)

text \<open>
  Claim C4, amended.  For a template name that \<open>encodeURIComponent\<close> accepts,
  \<open>validateTemplate\<close> sends one GET request to
  \<open>/vertical/templates/{encoded name}/validate\<close> (the client over \<open>fetch\<close> under the base
  URL, the client over sdk-core through \<open>http.get\<close>).  When the answer is an ok response
  whose body parses as JSON, respectively a resolved library call, the result is
  \<open>{ok: true, data}\<close> with the body as \<open>data\<close>, its fields unchecked.
\<close>

theorem validateTemplate_request:
  assumes "encodeURIComponent templateName = Some e"
  shows "fetch_calls (createAgentVerticalClient_fetch rt config (ValidateTemplate templateName))
           = [\<lparr>call_url = baseUrl config @ js ''/vertical/templates/'' @ e @ js ''/validate'',
               call_init = \<lparr>init_method = js ''GET'',
                            init_headers = buildHeaders (headers config), body = None\<rparr>,
               call_timeoutMs = (case timeoutMs config of None \<Rightarrow> 30000 | Some t \<Rightarrow> t)\<rparr>]
         \<and> (\<forall>c \<in> set (fetch_calls (createAgentVerticalClient_fetch rt config
                  (ValidateTemplate templateName))).
               \<forall>response parsed. event_of rt c = Responded response \<and> response_ok response
                   \<and> response_json response = Fulfilled parsed \<longrightarrow>
                 settled (createAgentVerticalClient_fetch rt config (ValidateTemplate templateName))
                   = Fulfilled (Ok parsed))
         \<and> library_calls (createAgentVerticalClient_sdk mk config (ValidateTemplate templateName))
             = [HttpGet (js ''/vertical/templates/'' @ e @ js ''/validate'') None]
         \<and> (\<forall>c \<in> set (library_calls (createAgentVerticalClient_sdk mk config
                  (ValidateTemplate templateName))).
               \<forall>d s. mk (baseUrl config)
                     (case timeoutMs config of None \<Rightarrow> 30000 | Some t \<Rightarrow> t) (headers config) c
                   = Fulfilled (d, s) \<longrightarrow>
                 returned (createAgentVerticalClient_sdk mk config (ValidateTemplate templateName))
                   = Fulfilled (Ok d))"
  using assms
  by (simp add: run_defs validateTemplate_fetch_def validateTemplate_sdk_def event_of_def
      Let_def)

theorem validateTemplate_request_witness:
  "encodeURIComponent (js ''triage'') = Some (js ''triage'')
   \<and> fetch_calls (createAgentVerticalClient_fetch runtime_validation_ok localhost
         (ValidateTemplate (js ''triage'')))
       = [\<lparr>call_url = js ''http://localhost:8093/vertical/templates/triage/validate'',
           call_init = \<lparr>init_method = js ''GET'', init_headers = buildHeaders None, body = None\<rparr>,
           call_timeoutMs = 30000\<rparr>]
   \<and> settled (createAgentVerticalClient_fetch runtime_validation_ok localhost
         (ValidateTemplate (js ''triage''))) = Fulfilled (Ok validation_result)
   \<and> returned (createAgentVerticalClient_sdk validation_ok_createHttpClient localhost
         (ValidateTemplate (js ''triage''))) = Fulfilled (Ok validation_result)"
proof -
  have h: "encodeURIComponent (js ''triage'') = Some (js ''triage'')"
    by (simp add: encode_defs)
  note T = validateTemplate_request [OF h, of runtime_validation_ok localhost
      validation_ok_createHttpClient]
  have ev: "\<And>c. event_of runtime_validation_ok c
      = Responded \<lparr>response_ok = True, response_status = 200,
                   response_json = Fulfilled validation_result\<rparr>"
    by (simp add: event_of_def runtime_validation_ok_def)
  have lib: "\<And>c. validation_ok_createHttpClient (baseUrl localhost) 30000
      (headers localhost) c = Fulfilled (validation_result, 200)"
    by (simp add: validation_ok_createHttpClient_def)
  from T have calls: "fetch_calls (createAgentVerticalClient_fetch runtime_validation_ok localhost
         (ValidateTemplate (js ''triage'')))
       = [\<lparr>call_url = js ''http://localhost:8093/vertical/templates/triage/validate'',
           call_init = \<lparr>init_method = js ''GET'', init_headers = buildHeaders None, body = None\<rparr>,
           call_timeoutMs = 30000\<rparr>]"
    by (simp add: js_def)
  from T calls ev have f: "settled (createAgentVerticalClient_fetch runtime_validation_ok localhost
         (ValidateTemplate (js ''triage''))) = Fulfilled (Ok validation_result)"
    by simp
  from T lib have s: "returned (createAgentVerticalClient_sdk validation_ok_createHttpClient localhost
         (ValidateTemplate (js ''triage''))) = Fulfilled (Ok validation_result)"
    by simp
  from h calls f s show ?thesis by simp
qed

subsection \<open>The default timeout\<close>




subsection \<open>A body that is not JSON\<close>

text \<open>
  Claim C9.  On the client over \<open>fetch\<close>, whenever the server answers and
  \<open>response.json()\<close> fails, the method returns
  \<open>{ok: false, error: {error: "Network error", detail}, status: 0}\<close>, whatever
  \<open>response.ok\<close> and \<open>response.status\<close> are: the body is parsed before the status is read.
\<close>

theorem non_json_body:
  "\<forall>c \<in> set (fetch_calls (createAgentVerticalClient_fetch rt config call)).
     \<forall>response err. event_of rt c = Responded response \<and> response_json response = Rejected err
       \<longrightarrow> settled (createAgentVerticalClient_fetch rt config call)
             = Fulfilled (NotOk \<lparr>error = JStr (js ''Network error''),
                                  detail = JStr (if instanceofError err then message err
                                                 else String_thrown err)\<rparr> 0)"
proof -
  let ?t = "case timeoutMs config of None \<Rightarrow> 30000 | Some t \<Rightarrow> t"
  let ?f = "methods_fetch rt (baseUrl config) ?t (buildHeaders (headers config)) call"
  have f: "createAgentVerticalClient_fetch rt config call = ?f"
    by (simp add: createAgentVerticalClient_fetch_def Let_def)
  note fc = fetch_calls_cases [of rt "baseUrl config" ?t "buildHeaders (headers config)" call]
  show ?thesis unfolding f
    using fc by (auto simp: event_of_def fetchJson_catch_def dest!: fetchJson_bad_json)
qed

theorem non_json_body_witness:
  "fetch_calls (createAgentVerticalClient_fetch runtime_500_html localhost ListDomains)
     = [domains_call]
   \<and> event_of runtime_500_html domains_call
       = Responded \<lparr>response_ok = False, response_status = 500,
                    response_json = Rejected SyntaxError\<rparr>
   \<and> settled (createAgentVerticalClient_fetch runtime_500_html localhost ListDomains)
       = Fulfilled (NotOk \<lparr>error = JStr (js ''Network error''),
                            detail = JStr (js ''Unexpected token < in JSON at position 0'')\<rparr> 0)"
proof -
  have a: "fetch_calls (createAgentVerticalClient_fetch runtime_500_html localhost ListDomains)
     = [domains_call]"
    by (simp add: run_defs listDomains_fetch_def js_def domains_call_def)
  have b: "event_of runtime_500_html domains_call
       = Responded \<lparr>response_ok = False, response_status = 500,
                    response_json = Rejected SyntaxError\<rparr>"
    by (simp add: event_of_def runtime_500_html_def)
  have c: "instanceofError SyntaxError"
    "message SyntaxError = js ''Unexpected token < in JSON at position 0''"
    by (simp_all add: SyntaxError_def instanceofError_def message_def)
  show ?thesis
    using a b c non_json_body [of runtime_500_html localhost ListDomains]
    by simp
qed

section \<open>Properties of the evaluation engine\<close>

lemma search_literal_found:
  "search_literal pat s i \<noteq> None \<longleftrightarrow> (\<exists>before after. s = before @ pat @ after)"
proof (induction s arbitrary: i)
  case Nil
  then show ?case by auto
next
  case (Cons c cs)
  show ?case
  proof (cases "take (length pat) (c # cs) = pat")
    case True
    then have "c # cs = [] @ pat @ drop (length pat) (c # cs)"
      by (metis append_Nil append_take_drop_id)
    with True show ?thesis by (metis search_literal.simps(2) option.distinct(1))
  next
    case False
    have "(\<exists>before after. c # cs = before @ pat @ after)
            \<longleftrightarrow> (\<exists>before after. cs = before @ pat @ after)"
    proof
      assume "\<exists>before after. c # cs = before @ pat @ after"
      then obtain before after where eq: "c # cs = before @ pat @ after" by blast
      show "\<exists>before after. cs = before @ pat @ after"
      proof (cases before)
        case Nil
        with eq have "take (length pat) (c # cs) = pat" by simp
        with False show ?thesis by simp
      next
        case (Cons b bs)
        with eq have "cs = bs @ pat @ after" by simp
        then show ?thesis by blast
      qed
    next
      assume "\<exists>before after. cs = before @ pat @ after"
      then obtain before after where "cs = before @ pat @ after" by blast
      then have "c # cs = (c # before) @ pat @ after" by simp
      then show "\<exists>before after. c # cs = before @ pat @ after" by blast
    qed
    with False Cons.IH [of "Suc i"] show ?thesis by simp
  qed
qed

lemma match_triggered:
  assumes "well_configured compile rule"
  shows "\<exists>outcome. match compile rule text = Inr outcome
           \<and> (triggered outcome \<longleftrightarrow> pattern_found compile rule text)"
proof (cases "is_regex rule")
  case True
  with assms obtain search where "compile (pattern rule) = Some search"
    by (auto simp: well_configured_def)
  with True show ?thesis by (simp add: match_def pattern_found_def)
next
  case False
  let ?found = "search_literal (lower (pattern rule)) (lower text) 0"
  have "match compile rule text = Inr \<lparr>triggered = (?found \<noteq> None), span = ?found\<rparr>"
    using False by (simp add: match_def Let_def)
  moreover have "(?found \<noteq> None) \<longleftrightarrow> pattern_found compile rule text"
    using False by (simp only: search_literal_found pattern_found_def if_False)
  ultimately show ?thesis by simp
qed

text \<open>
  On any list of well-configured rules, \<open>check\<close> reports exactly the violated rules, in
  the order of the list.
\<close>

lemma check_reports_violated_rules:
  assumes "\<forall>rule \<in> set rules. well_configured compile rule"
  shows "\<exists>violations. check compile rules text = Inr violations
           \<and> map violation_rule_id violations
               = map rule_id (filter (\<lambda>rule. if prohibited (rule_type rule)
                                             then pattern_found compile rule text
                                             else \<not> pattern_found compile rule text) rules)"
  using assms
proof (induction rules)
  case Nil
  then show ?case by simp
next
  case (Cons rule rules)
  from Cons.prems have "well_configured compile rule" by simp
  from match_triggered [OF this] obtain outcome where
    m: "match compile rule text = Inr outcome"
    and t: "triggered outcome \<longleftrightarrow> pattern_found compile rule text"
    by blast
  from Cons obtain violations where
    "check compile rules text = Inr violations"
    "map violation_rule_id violations
       = map rule_id (filter (\<lambda>rule. if prohibited (rule_type rule)
                                     then pattern_found compile rule text
                                     else \<not> pattern_found compile rule text) rules)"
    by auto
  with m t show ?case by (simp add: violated_def)
qed

text \<open>
  Claim C5.  For a rule whose pattern compiles when it is a regular expression, and every
  text: \<open>check\<close> on the rule reports a violation exactly when the pattern is found, if
  the rule is of a prohibited type, and exactly when the pattern is absent, if it is of a
  required type.  \<open>pattern_found\<close> covers the literal and the regex patterns.
\<close>

theorem check_polarity:
  assumes "well_configured compile rule"
  shows "\<exists>violations. check compile [rule] text = Inr violations
           \<and> (rule_type rule \<in> {PROHIBITED_PHRASE, PROHIBITED_PATTERN} \<longrightarrow>
                (violations \<noteq> [] \<longleftrightarrow> pattern_found compile rule text))
           \<and> (rule_type rule \<in> {REQUIRED_DISCLAIMER, REQUIRED_PATTERN} \<longrightarrow>
                (violations \<noteq> [] \<longleftrightarrow> \<not> pattern_found compile rule text))"
proof -
  from match_triggered [OF assms] obtain outcome where
    m: "match compile rule text = Inr outcome"
    and t: "triggered outcome \<longleftrightarrow> pattern_found compile rule text"
    by blast
  show ?thesis using m t by (auto simp: violated_def prohibited_def)
qed

theorem check_polarity_witness:
  "well_configured (\<lambda>p. None) disclaimer_rule
   \<and> rule_type disclaimer_rule \<in> {REQUIRED_DISCLAIMER, REQUIRED_PATTERN}
   \<and> (\<exists>violations. check (\<lambda>p. None) [disclaimer_rule] ''Take two tablets a day.'' = Inr violations
         \<and> violations \<noteq> []
         \<and> \<not> pattern_found (\<lambda>p. None) disclaimer_rule ''Take two tablets a day.'')"
proof -
  have h: "well_configured (\<lambda>p. None) disclaimer_rule"
    by (simp add: well_configured_def disclaimer_rule_def)
  have v: "check (\<lambda>p. None) [disclaimer_rule] ''Take two tablets a day.''
             = Inr [\<lparr>violation_rule_id = ''healthcare.disclaimer'', violation_severity = ''medium'',
                     violation_remediation = ''Append the disclaimer'', matched_span = None\<rparr>]"
    by (simp add: disclaimer_rule_def match_def violated_def prohibited_def lower_def
        lower_char_def)
  have t: "rule_type disclaimer_rule \<in> {REQUIRED_DISCLAIMER, REQUIRED_PATTERN}"
    by (simp add: disclaimer_rule_def)
  show ?thesis
    using h t v check_polarity [OF h, of "''Take two tablets a day.''"] by auto
qed

text \<open>
  Claim C6.  For every template, the checks required at INFORMATIONAL are among those
  required at ADVISORY, and these among those required at DECISION_SUPPORT.
\<close>

theorem required_checks_escalate:
  "checks_required_at template INFORMATIONAL \<subseteq> checks_required_at template ADVISORY
   \<and> checks_required_at template ADVISORY \<subseteq> checks_required_at template DECISION_SUPPORT"
  by (auto simp: checks_required_at_def required_checks_def advisory_checks_def
      decision_support_checks_def)

text \<open>
  Claim C7.  A response from which no claim is extracted has \<open>grounded_fraction\<close> 1.
\<close>

theorem grounded_fraction_no_claims:
  assumes "extract_claims cfg response = []"
  shows "grounded_fraction (validate cfg response knowledge_base) = 1"
  using assms by (simp add: validate_def)

theorem grounded_fraction_no_claims_witness:
  "extract_claims default_config ''This is not medical advice.'' = []
   \<and> grounded_fraction (validate default_config ''This is not medical advice.''
        [(''kb1'', ''the heart pumps blood'')]) = 1"
proof -
  have h: "extract_claims default_config ''This is not medical advice.'' = []"
    by (simp add: extract_claims_def default_config_def lower_def lower_char_def)
  show ?thesis
    using h grounded_fraction_no_claims [OF h] by simp
qed

end
